theory Spec2Isabelle
  imports Complex_Main "HOL-Library.Sublist"
begin

section \<open>Python values shared by both drivers\<close>

text \<open>
  Text is a list of 8-bit characters; the dashboard protocol and every literal of the
  drivers are ASCII, and the string operations below act on ASCII only.  Python floats
  are modelled as real numbers.
\<close>

datatype exn =
    Exception string
  | TypeError string
  | AttributeError string
  | IndexError string
  | NameError string
  | UnboundLocalError string
  | ValueError string
  | UnicodeEncodeError
  | UnicodeDecodeError
  | OSError string
  | RecursionError

text \<open>
  Everything a driver does to the outside world, in the order it does it: console
  output, sleeping, the dashboard socket, and the calls into the motion, gripper,
  screwdriver and pipette libraries.
\<close>

datatype action =
    Print string
  | PrintExn exn
  | PrintGripperError exn
  | Sleep real
  | SocketConnect
  | SocketClose
  | SendAll string
  | Recv
  | MoveJ "real list" real real
  | MoveL "real list" real real
  | SpeedlTool "real list" real real
  | TranslateTool "real list" real real
  | GetJ
  | GetL
  | RobotiqGripperNew
  | GripperConnect string int
  | GripperIsActive
  | GripperActivate
  | GripperMoveAndWait int int int
  | GripperDisconnect
  | Collaborator string

subsection \<open>Commands that may raise\<close>

type_synonym ('a, 's) prog = "'s \<Rightarrow> (exn + 'a) \<times> 's"

definition ret :: "'a \<Rightarrow> ('a, 's) prog" where
  "ret a = (\<lambda>s. (Inr a, s))"

definition raise :: "exn \<Rightarrow> ('a, 's) prog" where
  "raise e = (\<lambda>s. (Inl e, s))"

definition bnd :: "('a, 's) prog \<Rightarrow> ('a \<Rightarrow> ('b, 's) prog) \<Rightarrow> ('b, 's) prog" where
  "bnd m k = (\<lambda>s. case m s of (Inl e, s') \<Rightarrow> (Inl e, s') | (Inr a, s') \<Rightarrow> k a s')"

definition sq :: "('a, 's) prog \<Rightarrow> ('b, 's) prog \<Rightarrow> ('b, 's) prog" where
  "sq m k = bnd m (\<lambda>_. k)"

fun steps :: "(unit, 's) prog list \<Rightarrow> (unit, 's) prog" where
  "steps [] = ret ()"
| "steps (p # ps) = sq p (steps ps)"

definition whenever :: "bool \<Rightarrow> (unit, 's) prog \<Rightarrow> (unit, 's) prog" where
  "whenever b p = (if b then p else ret ())"

text \<open>The observable trace is the part of the state that both drivers share.\<close>

record io =
  trace :: "action list"

definition emit :: "action \<Rightarrow> (unit, 'a io_scheme) prog" where
  "emit a = (\<lambda>s. (Inr (), s\<lparr>trace := trace s @ [a]\<rparr>))"

subsection \<open>String methods\<close>

definition ascii_lowercase :: string where
  "ascii_lowercase = ''abcdefghijklmnopqrstuvwxyz''"

definition ascii_uppercase :: string where
  "ascii_uppercase = ''ABCDEFGHIJKLMNOPQRSTUVWXYZ''"

definition upper_char :: "char \<Rightarrow> char" where
  "upper_char c = (case map_of (zip ascii_lowercase ascii_uppercase) c of Some u \<Rightarrow> u | None \<Rightarrow> c)"

definition lower_char :: "char \<Rightarrow> char" where
  "lower_char c = (case map_of (zip ascii_uppercase ascii_lowercase) c of Some l \<Rightarrow> l | None \<Rightarrow> c)"

definition str_upper :: "string \<Rightarrow> string" where
  "str_upper s = map upper_char s"

definition str_lower :: "string \<Rightarrow> string" where
  "str_lower s = map lower_char s"

text \<open>The ASCII characters that \<open>str.strip()\<close> removes: tab, newline, vertical tab, form
  feed, carriage return, the four separators 0x1C to 0x1F, and space.\<close>

definition whitespace :: string where
  "whitespace = [CHR 0x09, CHR 0x0A, CHR 0x0B, CHR 0x0C, CHR 0x0D,
                 CHR 0x1C, CHR 0x1D, CHR 0x1E, CHR 0x1F, CHR '' '']"

definition is_space :: "char \<Rightarrow> bool" where
  "is_space c = (c \<in> set whitespace)"

definition str_strip :: "string \<Rightarrow> string" where
  "str_strip s = rev (dropWhile is_space (rev (dropWhile is_space s)))"

text \<open>\<open>s.find(sub)\<close>: the lowest index at which \<open>sub\<close> starts in \<open>s\<close>, or \<open>-1\<close>.\<close>

fun find_at :: "string \<Rightarrow> string \<Rightarrow> nat \<Rightarrow> int" where
  "find_at [] sub i = (if sub = [] then int i else - 1)"
| "find_at (c # cs) sub i = (if prefix sub (c # cs) then int i else find_at cs sub (Suc i))"

definition str_find :: "string \<Rightarrow> string \<Rightarrow> int" where
  "str_find s sub = find_at s sub 0"

text \<open>\<open>s.split(sep)\<close> for a one-character separator: every occurrence splits, so
  adjacent separators give empty fields and the result is never empty.\<close>

fun str_split :: "string \<Rightarrow> char \<Rightarrow> string list" where
  "str_split [] sep = [] # []"
| "str_split (c # cs) sep =
     (if c = sep then [] # str_split cs sep
      else (case str_split cs sep of [] \<Rightarrow> [c] # [] | w # ws \<Rightarrow> (c # w) # ws))"

text \<open>\<open>xs[i]\<close> for a non-negative index.\<close>

definition index :: "'a list \<Rightarrow> nat \<Rightarrow> ('a, 's) prog" where
  "index xs i = (if i < length xs then ret (xs ! i) else raise (IndexError ''list index out of range''))"

section \<open>The dashboard client (ur5\_driver/ur\_dashboard.py)\<close>

text \<open>
  The controller and the network are the environment.  \<open>connect_env n\<close> is what the
  \<open>n\<close>-th call of \<open>connect\<close> meets, \<open>exchange_env n\<close> what the \<open>n\<close>-th
  \<open>sendall\<close>/\<open>recv\<close> pair meets.  \<open>connection\<close> says whether \<open>self.connection\<close> holds a
  socket object (it is \<open>None\<close> only while no socket could be created).
\<close>

datatype connect_outcome = Connected | Refused exn | NoSocket exn

datatype exchange = SendRaises exn | RecvRaises exn | Received string

record dashboard = io +
  connection :: bool
  connects :: nat
  exchanges :: nat
  connect_env :: "nat \<Rightarrow> connect_outcome"
  exchange_env :: "nat \<Rightarrow> exchange"

definition banner :: string where
  "banner = ''Connected: Universal Robots Dashboard Server''"

text \<open>\<open>connect\<close>: its own \<open>try\<close> catches everything, so it never raises.  When
  \<open>socket.socket\<close> itself fails the field keeps its old value.\<close>

definition connect :: "(unit, dashboard) prog" where
  "connect = (\<lambda>d.
     let d1 = d\<lparr>connects := Suc (connects d), trace := trace d @ [SocketConnect]\<rparr> in
     case connect_env d (connects d) of
       Connected \<Rightarrow> (Inr (), d1\<lparr>connection := True\<rparr>)
     | Refused err \<Rightarrow>
         steps [emit (Print ''UR dashboard could not establish connection''), emit (PrintExn err)]
           (d1\<lparr>connection := True\<rparr>)
     | NoSocket err \<Rightarrow>
         steps [emit (Print ''UR dashboard could not establish connection''), emit (PrintExn err)]
           d1)"

definition disconnect :: "(unit, dashboard) prog" where
  "disconnect = (\<lambda>d.
     if connection d then emit SocketClose d
     else raise (AttributeError ''NoneType object has no attribute close'') d)"

definition encode_ascii :: "string \<Rightarrow> (string, 's) prog" where
  "encode_ascii s = (if \<forall>c \<in> set s. (of_char c :: nat) < 128 then ret s else raise UnicodeEncodeError)"

text \<open>One \<open>sendall\<close> followed by \<open>sleep\<close> and \<open>recv(4096).decode\<close>.\<close>

definition sendall_recv :: "string \<Rightarrow> real \<Rightarrow> (string, dashboard) prog" where
  "sendall_recv bytes response_delay = (\<lambda>d.
     let d1 = d\<lparr>exchanges := Suc (exchanges d), trace := trace d @ [SendAll bytes]\<rparr> in
     case exchange_env d (exchanges d) of
       SendRaises err \<Rightarrow> (Inl err, d1)
     | RecvRaises err \<Rightarrow> (Inl err, d1\<lparr>trace := trace d1 @ [Sleep response_delay, Recv]\<rparr>)
     | Received response \<Rightarrow> (Inr response, d1\<lparr>trace := trace d1 @ [Sleep response_delay, Recv]\<rparr>))"

text \<open>The body of the \<open>try\<close> block of \<open>send_command\<close>.\<close>

definition send_command_try :: "string \<Rightarrow> real \<Rightarrow> (string, dashboard) prog" where
  "send_command_try command response_delay =
     bnd (\<lambda>d. if \<not> connection d then connect d else ret () d) (\<lambda>_.
     bnd (\<lambda>d. if connection d then ret () d
               else raise (AttributeError ''NoneType object has no attribute sendall'') d) (\<lambda>_.
     bnd (encode_ascii command) (\<lambda>bytes.
     bnd (sendall_recv (bytes @ [CHR 0x0A]) response_delay) (\<lambda>response.
     bnd (if str_find response banner \<noteq> - 1
          then sq (emit (Print banner)) (ret (drop 45 response))
          else ret response) (\<lambda>response.
     sq (emit (Print (''<< '' @ butlast response)))
        (ret (str_strip response)))))))"

text \<open>\<open>send_command\<close>: the result is \<open>Some\<close> text, or \<open>None\<close> when the handler ran
  (the function then falls off its end).\<close>

definition send_command :: "string \<Rightarrow> real \<Rightarrow> (string option, dashboard) prog" where
  "send_command command response_delay =
     sq (emit (Print (''>> '' @ command)))
        (\<lambda>d. case send_command_try command response_delay d of
                (Inr text, d') \<Rightarrow> (Inr (Some text), d')
              | (Inl err, d') \<Rightarrow> sq (emit (PrintExn err)) (ret None) d')"

text \<open>\<open>output.split(' ')\<close> followed by \<open>output[1]\<close>, on what \<open>send_command\<close> returned.\<close>

definition second_token :: "string option \<Rightarrow> (string, dashboard) prog" where
  "second_token output =
     (case output of
        None \<Rightarrow> raise (AttributeError ''NoneType object has no attribute split'')
      | Some text \<Rightarrow> index (str_split text (CHR '' '')) 1)"

definition robot_mode :: "(string, dashboard) prog" where
  "robot_mode = bnd (send_command ''robotmode'' 0.5) second_token"

definition safety_status :: "(string, dashboard) prog" where
  "safety_status = bnd (send_command ''safetystatus'' 0.5) second_token"

definition get_operational_mode :: "(string option, dashboard) prog" where
  "get_operational_mode = send_command ''get operational mode'' 0.5"

definition set_operational_mode :: "string \<Rightarrow> (string option, dashboard) prog" where
  "set_operational_mode mode = send_command (''set operational mode '' @ mode) 0.5"

definition is_in_remote_control :: "(string option, dashboard) prog" where
  "is_in_remote_control = send_command ''is in remote control'' 0.5"

definition unlock_protective_stop :: "(string option, dashboard) prog" where
  "unlock_protective_stop = send_command ''unlock protective stop'' 0.5"

definition close_safety_popup :: "(string option, dashboard) prog" where
  "close_safety_popup = send_command ''close safety popup'' 0.5"

definition brake_release :: "(string option, dashboard) prog" where
  "brake_release =
     bnd (send_command ''brake release'' 0.5) (\<lambda>output.
     sq (emit (Sleep 20)) (ret output))"

definition restart_safety :: "(string option, dashboard) prog" where
  "restart_safety =
     bnd (send_command ''restart safety'' 0.5) (\<lambda>output.
     sq (emit (Sleep 10))
    (sq disconnect
    (sq connect
    (bnd brake_release (\<lambda>output2. ret output)))))"

text \<open>\<open>s.upper()\<close> on what may be \<open>None\<close>.\<close>

definition upper_of :: "string option \<Rightarrow> (string, dashboard) prog" where
  "upper_of v =
     (case v of
        None \<Rightarrow> raise (AttributeError ''NoneType object has no attribute upper'')
      | Some s \<Rightarrow> ret (str_upper s))"

text \<open>\<open>remote_control_status == False\<close>: a string or \<open>None\<close> never equals \<open>False\<close>.\<close>

definition eq_False :: "string option \<Rightarrow> bool" where
  "eq_False v = False"

text \<open>
  One pass through the body of \<open>initialize\<close>, up to its last line: the result is
  \<open>True\<close> when the body executed its \<open>return\<close> and \<open>False\<close> when it reached
  \<open>return self.initialize()\<close>.
\<close>

definition initialize_pass :: "(bool, dashboard) prog" where
  "initialize_pass =
     bnd robot_mode (\<lambda>robot_mode.
     bnd get_operational_mode (\<lambda>operation_mode.
     bnd safety_status (\<lambda>safety_status.
     bnd is_in_remote_control (\<lambda>remote_control_status.
     sq (if str_upper safety_status = ''PROTECTIVE_STOP''
         then steps [emit (Print ''Unlocking protective stop''),
                     sq unlock_protective_stop (ret ())]
         else if str_upper safety_status \<noteq> ''NORMAL''
         then steps [emit (Print ''Restarting safety''),
                     sq close_safety_popup (ret ()),
                     sq restart_safety (ret ())]
         else ret ())
    (bnd (upper_of operation_mode) (\<lambda>operation_mode_upper.
     sq (whenever (operation_mode_upper = ''MANUAL'')
          (steps [emit (Print ''Operation mode is currently set to MANUAL, switching to AUTOMATIC''),
                  sq (set_operational_mode ''automatic'') (ret ())]))
    (sq (whenever (eq_False remote_control_status) (emit (Print ''Robot is not in remote control'')))
    (if str_upper robot_mode = ''RUNNING'' \<and> str_upper safety_status = ''NORMAL''
     then sq (emit (Print ''Robot is initialized'')) (ret True)
     else if str_upper robot_mode = ''POWER_OFF'' \<or> str_upper robot_mode = ''BOOTING''
             \<or> str_upper robot_mode = ''POWER_ON'' \<or> str_upper robot_mode = ''IDLE''
     then sq (emit (Print ''Powering on the robot and releasing brakes''))
         (sq brake_release (ret False))
     else ret False))))))))"

text \<open>
  \<open>initialize\<close> ends by calling itself.  Python bounds the depth of its call stack
  (\<open>sys.getrecursionlimit()\<close>, 1000 unless it is changed), so the nesting is finite.
  \<open>room\<close> is the number of further nested calls of \<open>initialize\<close> whose pass still fits
  under that bound when the call starts; the call itself is taken to fit, with the calls
  its pass makes.  The nested call after the last one that fits ends in \<open>RecursionError\<close>
  before it has sent or printed anything (its first statement calls \<open>robot_mode\<close>, which
  calls \<open>send_command\<close>, and that frame is one too many), so the error leaves
  \<open>initialize\<close> in the state that the last complete pass has left.
\<close>

fun initialize :: "nat \<Rightarrow> dashboard \<Rightarrow> (exn + unit) \<times> dashboard" where
  "initialize room d =
     (case initialize_pass d of
        (Inl err, d') \<Rightarrow> (Inl err, d')
      | (Inr returned, d') \<Rightarrow>
          if returned then (Inr (), d')
          else (case room of
                  0 \<Rightarrow> (Inl RecursionError, d')
                | Suc room' \<Rightarrow> initialize room' d'))"

section \<open>The motion, gripper and tool libraries as environment\<close>

text \<open>
  The urx robot, the Robotiq gripper driver, and the screwdriver and pipette controllers
  are outside this repository.  Every call into them is numbered; \<open>raises_env n\<close> says
  whether the \<open>n\<close>-th call raises (and what), and the other tables give what the call
  returns when it is one that returns a value.  \<open>format_2f\<close> stands for Python's
  \<open>'%.2f' % value\<close>.
\<close>

record cell = io +
  calls :: nat
  raises_env :: "nat \<Rightarrow> exn option"
  is_active_env :: "nat \<Rightarrow> bool"
  getj_env :: "nat \<Rightarrow> real list"
  getl_env :: "nat \<Rightarrow> real list"
  format_2f :: "real \<Rightarrow> string"

definition call_val :: "action \<Rightarrow> ('a cell_scheme \<Rightarrow> nat \<Rightarrow> 'b) \<Rightarrow> ('b, 'a cell_scheme) prog" where
  "call_val a table = (\<lambda>w.
     let w1 = w\<lparr>calls := Suc (calls w), trace := trace w @ [a]\<rparr> in
     case raises_env w (calls w) of
       Some err \<Rightarrow> (Inl err, w1)
     | None \<Rightarrow> (Inr (table w (calls w)), w1))"

definition call :: "action \<Rightarrow> (unit, 'a cell_scheme) prog" where
  "call a = call_val a (\<lambda>w n. ())"

subsection \<open>\<open>try\<close> statements\<close>

definition try_except :: "(unit, 's) prog \<Rightarrow> (exn \<Rightarrow> (unit, 's) prog) \<Rightarrow> (unit, 's) prog" where
  "try_except body handler = (\<lambda>s.
     case body s of (Inl err, s') \<Rightarrow> handler err s' | (Inr v, s') \<Rightarrow> (Inr v, s'))"

definition try_except_else ::
  "(unit, 's) prog \<Rightarrow> (exn \<Rightarrow> (unit, 's) prog) \<Rightarrow> (unit, 's) prog \<Rightarrow> (unit, 's) prog" where
  "try_except_else body handler orelse = (\<lambda>s.
     case body s of (Inl err, s') \<Rightarrow> handler err s' | (Inr v, s') \<Rightarrow> orelse s')"

text \<open>\<open>finally\<close> runs whatever the block did; an exception of its own replaces the
  outcome, otherwise the outcome of the block stands.\<close>

definition try_finally :: "(unit, 's) prog \<Rightarrow> (unit, 's) prog \<Rightarrow> (unit, 's) prog" where
  "try_finally body final = (\<lambda>s.
     case body s of (r, s') \<Rightarrow>
       (case final s' of (Inl err, s'') \<Rightarrow> (Inl err, s'') | (Inr v, s'') \<Rightarrow> (r, s'')))"

subsection \<open>Arguments that may be \<open>None\<close>\<close>

definition falsy_list :: "'a list option \<Rightarrow> bool" where
  "falsy_list v = (v = None \<or> v = Some [])"

definition falsy_str :: "string option \<Rightarrow> bool" where
  "falsy_str v = (v = None \<or> v = Some [])"

text \<open>\<open>-approach_distance\<close>.\<close>

definition negate :: "real option \<Rightarrow> (real option, 's) prog" where
  "negate v =
     (case v of
        None \<Rightarrow> raise (TypeError ''bad operand type for unary -: NoneType'')
      | Some x \<Rightarrow> ret (Some (- x)))"

text \<open>\<open>above = deepcopy(goal); above[axis] += distance\<close>, where any of the three may be
  \<open>None\<close>.\<close>

definition add_at :: "real list option \<Rightarrow> nat option \<Rightarrow> real option \<Rightarrow> (real list, 's) prog" where
  "add_at goal axis distance =
     (case goal of
        None \<Rightarrow> raise (TypeError ''NoneType object is not subscriptable'')
      | Some xs \<Rightarrow>
          (case axis of
             None \<Rightarrow> raise (TypeError ''list indices must be integers or slices, not NoneType'')
           | Some i \<Rightarrow>
               if length xs \<le> i then raise (IndexError ''list index out of range'')
               else (case distance of
                       None \<Rightarrow> raise (TypeError ''unsupported operand type(s) for +=: float and NoneType'')
                     | Some d \<Rightarrow> ret (xs[i := xs ! i + d]))))"

section \<open>The finger gripper controller (ur\_tools/gripper\_controller.py)\<close>

text \<open>
  The fields the methods read.  \<open>gripper_open\<close> is the attribute that only an assignment
  from outside creates (\<open>None\<close>: absent); the constructor's own field is spelled
  \<open>griper_open\<close>.  \<open>gripper\<close> says whether the attribute \<open>self.gripper\<close> exists.
\<close>

record finger_gripper =
  host :: string
  PORT :: int
  gripper_close :: int
  griper_open :: int
  gripper_speed :: int
  gripper_force :: int
  acceleration :: real
  velocity :: real
  gripper_open :: "int option"
  gripper :: bool

text \<open>Methods that assign to \<open>self\<close> run on the object paired with the world.\<close>

definition in_world :: "('a, 'w) prog \<Rightarrow> ('a, 'o \<times> 'w) prog" where
  "in_world m = (\<lambda>(self, w). case m w of (r, w') \<Rightarrow> (r, (self, w')))"

definition with_self :: "('o \<Rightarrow> ('a, 'o \<times> 'w) prog) \<Rightarrow> ('a, 'o \<times> 'w) prog" where
  "with_self k = (\<lambda>(self, w). k self (self, w))"

definition assign :: "('o \<Rightarrow> 'o) \<Rightarrow> (unit, 'o \<times> 'w) prog" where
  "assign f = (\<lambda>(self, w). (Inr (), (f self, w)))"

text \<open>A call on \<open>self.gripper\<close>.\<close>

definition gripper_call :: "finger_gripper \<Rightarrow> action \<Rightarrow> (unit, 'a cell_scheme) prog" where
  "gripper_call self a =
     (if gripper self then call a
      else raise (AttributeError ''FingerGripperController object has no attribute gripper''))"

definition connect_gripper :: "(unit, finger_gripper \<times> 'a cell_scheme) prog" where
  "connect_gripper =
     try_except_else
       (steps [in_world (call RobotiqGripperNew),
               assign (\<lambda>self. self\<lparr>gripper := True\<rparr>),
               in_world (emit (Print ''Connecting to gripper...'')),
               with_self (\<lambda>self. in_world (call (GripperConnect (host self) (PORT self))))])
       (\<lambda>err. in_world (emit (PrintGripperError err)))
       (bnd (in_world (call_val GripperIsActive is_active_env)) (\<lambda>active.
          if active then in_world (emit (Print ''Gripper already active''))
          else steps [in_world (emit (Print ''Activating gripper...'')),
                      in_world (call GripperActivate),
                      in_world (emit (Print ''Opening gripper...'')),
                      with_self (\<lambda>self. in_world (call (GripperMoveAndWait
                         (griper_open self) (gripper_speed self) (gripper_force self))))]))"

text \<open>The constructor; \<open>ur\<close> says whether the \<open>ur\<close> argument is a connection.\<close>

definition FingerGripperController ::
  "string \<Rightarrow> int \<Rightarrow> bool \<Rightarrow> (finger_gripper, 'a cell_scheme) prog" where
  "FingerGripperController hostname port ur =
     (if \<not> ur then raise (Exception ''UR connection is not established'')
      else (\<lambda>w.
        case connect_gripper
               (\<lparr>host = hostname, PORT = port, gripper_close = 130, griper_open = 0,
                 gripper_speed = 150, gripper_force = 0, acceleration = 0.5, velocity = 0.2,
                 gripper_open = None, gripper = False\<rparr>, w) of
          (Inl err, (self, w')) \<Rightarrow> (Inl err, w')
        | (Inr v, (self, w')) \<Rightarrow> (Inr self, w')))"

definition disconnect_gripper :: "finger_gripper \<Rightarrow> (unit, 'a cell_scheme) prog" where
  "disconnect_gripper self =
     try_except_else
       (gripper_call self GripperDisconnect)
       (\<lambda>err. emit (PrintGripperError err))
       (emit (Print ''Gripper conenction is closed''))"

text \<open>The \<open>if\<close>/\<open>elif\<close> chain of \<open>pick\<close> and \<open>place\<close>: the axis index (\<open>None\<close> when no
  branch is taken) and the approach distance after it.\<close>

definition approach :: "string option \<Rightarrow> real option \<Rightarrow> (nat option \<times> real option, 's) prog" where
  "approach approach_axis approach_distance =
     (if falsy_str approach_axis \<or> map_option str_lower approach_axis = Some ''z''
      then ret (Some 2, approach_distance)
      else if map_option str_lower approach_axis = Some ''y''
      then ret (Some 1, approach_distance)
      else if map_option str_lower approach_axis = Some ''-y''
      then bnd (negate approach_distance) (\<lambda>d. ret (Some 1, d))
      else if map_option str_lower approach_axis = Some ''x''
      then ret (Some 0, approach_distance)
      else if map_option str_lower approach_axis = Some ''-x''
      then bnd (negate approach_distance) (\<lambda>d. ret (Some 0, d))
      else ret (None, approach_distance))"

definition pick ::
  "finger_gripper \<Rightarrow> real list option \<Rightarrow> string option \<Rightarrow> real option \<Rightarrow> (unit, 'a cell_scheme) prog" where
  "pick self pick_goal approach_axis approach_distance =
     (case pick_goal of
        None \<Rightarrow> raise (Exception ''Please provide the source loaction'')
      | Some goal \<Rightarrow>
        if goal = [] then raise (Exception ''Please provide the source loaction'')
        else
        bnd (approach approach_axis approach_distance) (\<lambda>(axis, approach_distance).
        bnd (add_at (Some goal) axis approach_distance) (\<lambda>above_goal.
        steps [emit (Print ''Moving to above goal position''),
               call (MoveL above_goal (acceleration self) (velocity self)),
               emit (Print ''Moving to goal position''),
               call (MoveL goal (acceleration self) (velocity self)),
               emit (Print ''Closing gripper''),
               gripper_call self (GripperMoveAndWait
                 (gripper_close self) (gripper_speed self) (gripper_force self)),
               emit (Print ''Moving back to above goal position''),
               call (MoveL above_goal (acceleration self) (velocity self))])))"

definition place ::
  "finger_gripper \<Rightarrow> real list option \<Rightarrow> string option \<Rightarrow> real option \<Rightarrow> (unit, 'a cell_scheme) prog" where
  "place self place_goal approach_axis approach_distance =
     (case place_goal of
        None \<Rightarrow> raise (Exception ''Please provide the target loaction'')
      | Some goal \<Rightarrow>
        if goal = [] then raise (Exception ''Please provide the target loaction'')
        else
        bnd (approach approach_axis approach_distance) (\<lambda>(axis, approach_distance).
        bnd (add_at (Some goal) axis approach_distance) (\<lambda>above_goal.
        steps [emit (Print ''Moving to above goal position''),
               call (MoveL above_goal (acceleration self) (velocity self)),
               emit (Print ''Moving to goal position''),
               call (MoveL goal (acceleration self) (velocity self)),
               emit (Print ''Opennig gripper''),
               gripper_call self (GripperMoveAndWait
                 (griper_open self) (gripper_speed self) (gripper_force self)),
               emit (Print ''Moving back to above goal position''),
               call (MoveL above_goal (acceleration self) (velocity self))])))"

definition transfer ::
  "finger_gripper \<Rightarrow> real list option \<Rightarrow> real list option \<Rightarrow> string option \<Rightarrow> string option
     \<Rightarrow> real option \<Rightarrow> real option \<Rightarrow> (unit, 'a cell_scheme) prog" where
  "transfer self source target source_approach_axis target_approach_axis
       source_approach_distance target_approach_distance =
     steps [pick self source source_approach_axis source_approach_distance,
            emit (Print ''Pick up completed''),
            place self target target_approach_axis target_approach_distance,
            emit (Print ''Place completed'')]"

text \<open>The parameter names of \<open>transfer\<close>, and the methods the class defines.\<close>

definition transfer_parameters :: "string list" where
  "transfer_parameters =
     [''source'', ''target'', ''source_approach_axis'', ''target_approach_axis'',
      ''source_approach_distance'', ''target_approach_distance'']"

definition FingerGripperController_methods :: "string list" where
  "FingerGripperController_methods =
     [''connect_gripper'', ''disconnect_gripper'', ''pick'', ''place'', ''transfer'']"

section \<open>The task facade (ur\_driver/ur\_driver.py)\<close>

text \<open>
  The \<open>UR\<close> object together with the world it acts on.  \<open>gripper_controller\<close> is the
  local variable of that name in the running task method (\<open>None\<close>: not yet bound); it
  belongs to one call, and \<open>local_frame\<close> below starts every call that has it with the
  name unbound.
  \<open>robot\<close> and \<open>hex_key\<close> are the module-level names that two methods read, bound only
  when the file runs as a script (\<open>robot\<close> then names this very object).
\<close>

record ur = cell +
  hostname :: string
  acceleration :: real
  velocity :: real
  robot_current_joint_angles :: "string list option"
  gripper_controller :: "finger_gripper option"
  robot :: bool
  hex_key :: "real list option"

definition get_movement_state :: "(string, ur) prog" where
  "get_movement_state =
     bnd (call_val GetJ getj_env) (\<lambda>current_location. \<lambda>u.
       let current_location = map (format_2f u) current_location;
           movement_state =
             (if robot_current_joint_angles u = Some current_location then ''READY'' else ''BUSY'')
       in (Inr movement_state, u\<lparr>robot_current_joint_angles := Some current_location\<rparr>))"

definition default_home :: "real list" where
  "default_home = [-1.355567757283346, -2.5413090191283167, 1.8447726408587855,
                   -0.891581193809845, -1.5595606009112757, 3.3403327465057373]"

definition home :: "real list option \<Rightarrow> (unit, ur) prog" where
  "home home_location =
     steps [emit (Print ''Homing the robot...''),
            call (MoveJ (case home_location of
                           None \<Rightarrow> default_home
                         | Some home_loc \<Rightarrow> if home_loc = [] then default_home else home_loc) 2 2),
            emit (Print ''Robot homed'')]"

text \<open>The frame of a call: whatever an earlier call bound to its local is gone, and
  the name is unbound until this call assigns it.\<close>

definition unbound :: "ur \<Rightarrow> ur" where
  "unbound u = u\<lparr>gripper_controller := None\<rparr>"

definition local_frame :: "('a, ur) prog \<Rightarrow> ('a, ur) prog" where
  "local_frame body = (\<lambda>u. body (unbound u))"

text \<open>Statements on the local variable \<open>gripper_controller\<close>.\<close>

definition on_gripper_controller :: "('a, finger_gripper \<times> ur) prog \<Rightarrow> ('a, ur) prog" where
  "on_gripper_controller m = (\<lambda>u.
     case gripper_controller u of
       None \<Rightarrow> (Inl (UnboundLocalError ''gripper_controller''), u)
     | Some self \<Rightarrow>
         (case m (self, u) of (r, (self', u')) \<Rightarrow> (r, u'\<lparr>gripper_controller := Some self'\<rparr>)))"

definition with_gripper_controller :: "(finger_gripper \<Rightarrow> ('a, ur) prog) \<Rightarrow> ('a, ur) prog" where
  "with_gripper_controller k = (\<lambda>u.
     case gripper_controller u of
       None \<Rightarrow> (Inl (UnboundLocalError ''gripper_controller''), u)
     | Some self \<Rightarrow> k self u)"

text \<open>A keyword call: a keyword that is not a parameter raises before the body runs.
  A method call: a name the class does not define raises.\<close>

definition keyword_call :: "string list \<Rightarrow> string list \<Rightarrow> ('a, 's) prog \<Rightarrow> ('a, 's) prog" where
  "keyword_call parameters keywords body =
     (case filter (\<lambda>k. k \<notin> set parameters) keywords of
        [] \<Rightarrow> body
      | k # ks \<Rightarrow> raise (TypeError (''got an unexpected keyword argument '' @ k)))"

definition method_call :: "string list \<Rightarrow> string \<Rightarrow> ('a, 's) prog \<Rightarrow> ('a, 's) prog" where
  "method_call methods name body =
     (if name \<in> set methods then body
      else raise (AttributeError (''FingerGripperController object has no attribute '' @ name)))"

text \<open>The statements that open the \<open>try\<close> block of every gripper task: construct the
  controller and bind it to the local name; then connect once more, and take over the
  thresholds that were passed.\<close>

definition take_over :: "int option \<Rightarrow> (int \<Rightarrow> finger_gripper \<Rightarrow> finger_gripper) \<Rightarrow> (unit, ur) prog" where
  "take_over passed setattr =
     (case passed of
        None \<Rightarrow> ret ()
      | Some v \<Rightarrow> if v = 0 then ret () else on_gripper_controller (assign (setattr v)))"

definition construct_gripper :: "(unit, ur) prog" where
  "construct_gripper =
     bnd (\<lambda>u. FingerGripperController (hostname u) 63352 True u)
       (\<lambda>self u. (Inr (), u\<lparr>gripper_controller := Some self\<rparr>))"

definition prepare_gripper :: "int option \<Rightarrow> int option \<Rightarrow> (unit, ur) prog" where
  "prepare_gripper gripper_open_arg gripper_close_arg =
     steps [on_gripper_controller connect_gripper,
            take_over gripper_open_arg (\<lambda>v self. self\<lparr>gripper_open := Some v\<rparr>),
            take_over gripper_close_arg (\<lambda>v self. self\<lparr>gripper_close := v\<rparr>)]"

text \<open>Each task method is given in parts: the body of its \<open>try\<close> block, and the
  method, which wraps that body in the handler that prints and in whatever \<open>finally\<close>
  block it has.  The body of a gripper task is the constructor's statement followed by
  the rest of the block.\<close>

definition print_exception :: "exn \<Rightarrow> (unit, ur) prog" where
  "print_exception err = emit (PrintExn err)"

definition gripper_transfer_rest ::
  "real list option \<Rightarrow> real list option \<Rightarrow> string option \<Rightarrow> string option
     \<Rightarrow> real option \<Rightarrow> real option \<Rightarrow> int option \<Rightarrow> int option \<Rightarrow> (unit, ur) prog" where
  "gripper_transfer_rest source target source_approach_axis target_approach_axis
       source_approach_distance target_approach_distance gripper_open_arg gripper_close_arg =
     steps [prepare_gripper gripper_open_arg gripper_close_arg,
            with_gripper_controller (\<lambda>self.
              keyword_call transfer_parameters
                [''home'', ''source'', ''target'', ''source_approach_axis'',
                 ''target_approach_axis'', ''source_approach_distance'',
                 ''target_approach_distance'']
                (transfer self source target source_approach_axis target_approach_axis
                   source_approach_distance target_approach_distance)),
            emit (Print ''Finished transfer''),
            with_gripper_controller disconnect_gripper]"

definition gripper_transfer_try ::
  "real list option \<Rightarrow> real list option \<Rightarrow> string option \<Rightarrow> string option
     \<Rightarrow> real option \<Rightarrow> real option \<Rightarrow> int option \<Rightarrow> int option \<Rightarrow> (unit, ur) prog" where
  "gripper_transfer_try source target source_approach_axis target_approach_axis
       source_approach_distance target_approach_distance gripper_open_arg gripper_close_arg =
     sq construct_gripper
       (gripper_transfer_rest source target source_approach_axis target_approach_axis
          source_approach_distance target_approach_distance gripper_open_arg gripper_close_arg)"

definition gripper_transfer ::
  "real list option \<Rightarrow> real list option \<Rightarrow> real list option \<Rightarrow> string option \<Rightarrow> string option
     \<Rightarrow> real option \<Rightarrow> real option \<Rightarrow> int option \<Rightarrow> int option \<Rightarrow> (unit, ur) prog" where
  "gripper_transfer home_arg source target source_approach_axis target_approach_axis
       source_approach_distance target_approach_distance gripper_open_arg gripper_close_arg =
     (if falsy_list source \<or> falsy_list target
      then raise (Exception ''Please provide both the source and target loactions to make a transfer'')
      else
        local_frame
       (sq (home home_arg)
       (try_finally
          (try_except
             (gripper_transfer_try source target source_approach_axis target_approach_axis
                source_approach_distance target_approach_distance gripper_open_arg gripper_close_arg)
             print_exception)
          (steps [with_gripper_controller disconnect_gripper,
                  home home_arg]))))"

text \<open>\<open>xs[i] = v\<close> on what may be \<open>None\<close>.\<close>

definition setitem :: "real list option \<Rightarrow> nat \<Rightarrow> real \<Rightarrow> (real list option, 's) prog" where
  "setitem target i v =
     (case target of
        None \<Rightarrow> raise (TypeError ''NoneType object does not support item assignment'')
      | Some xs \<Rightarrow>
          if length xs \<le> i then raise (IndexError ''list assignment index out of range'')
          else ret (Some (xs[i := v])))"

text \<open>A linear move to what may be \<open>None\<close>; the statements before it have subscripted
  the same value, so \<open>None\<close> cannot arrive here.\<close>

definition movel :: "real list option \<Rightarrow> real \<Rightarrow> real \<Rightarrow> (unit, ur) prog" where
  "movel pose a v =
     (case pose of
        None \<Rightarrow> raise (TypeError ''NoneType object is not subscriptable'')
      | Some xs \<Rightarrow> call (MoveL xs a v))"

definition gripper_screw_transfer_rest ::
  "real list option \<Rightarrow> real list option \<Rightarrow> real list option \<Rightarrow> real list option \<Rightarrow> real
     \<Rightarrow> int option \<Rightarrow> int option \<Rightarrow> (unit, ur) prog" where
  "gripper_screw_transfer_rest home_arg target screwdriver_loc screw_loc screw_time
       gripper_open_arg gripper_close_arg =
     steps [prepare_gripper gripper_open_arg gripper_close_arg,
            with_gripper_controller (\<lambda>self. pick self screwdriver_loc (Some ''z'') (Some 0.05)),
            home home_arg,
            bnd (add_at screw_loc (Some 2) (Some 0.06)) (\<lambda>above_goal. \<lambda>u.
              steps [call (MoveL above_goal (acceleration u) (velocity u)),
                     movel screw_loc 0.2 0.2,
                     call (MoveL above_goal (acceleration u) (velocity u))] u),
            bnd (add_at target (Some 2) (Some 0.03)) (\<lambda>above_target. \<lambda>u.
              steps [call (MoveL above_target (acceleration u) (velocity u)),
                     movel target 0.2 0.2] u),
            emit (Print ''Screwing down''),
            call (SpeedlTool [0, 0, 0.00021, 0, 0, 3.14] 2 screw_time),
            emit (Sleep (screw_time + 0.5)),
            call (TranslateTool [0, 0, - 0.03] 0.5 0.5),
            home home_arg,
            (\<lambda>u. case hex_key u of
                    None \<Rightarrow> raise (NameError ''hex_key'') u
                  | Some key \<Rightarrow>
                      with_gripper_controller (\<lambda>self. place self (Some key) (Some ''z'') (Some 0.05)) u),
            home home_arg]"

definition gripper_screw_transfer_try ::
  "real list option \<Rightarrow> real list option \<Rightarrow> real list option \<Rightarrow> real list option \<Rightarrow> real
     \<Rightarrow> int option \<Rightarrow> int option \<Rightarrow> (unit, ur) prog" where
  "gripper_screw_transfer_try home_arg target screwdriver_loc screw_loc screw_time
       gripper_open_arg gripper_close_arg =
     sq construct_gripper
       (gripper_screw_transfer_rest home_arg target screwdriver_loc screw_loc screw_time
          gripper_open_arg gripper_close_arg)"

definition gripper_screw_transfer ::
  "real list option \<Rightarrow> real list option \<Rightarrow> real list option \<Rightarrow> real list option \<Rightarrow> real
     \<Rightarrow> int option \<Rightarrow> int option \<Rightarrow> (unit, ur) prog" where
  "gripper_screw_transfer home_arg target screwdriver_loc screw_loc screw_time
       gripper_open_arg gripper_close_arg =
     local_frame
    (sq (home home_arg)
    (try_finally
       (try_except
          (gripper_screw_transfer_try home_arg target screwdriver_loc screw_loc screw_time
             gripper_open_arg gripper_close_arg)
          print_exception)
       (with_gripper_controller disconnect_gripper)))"

definition remove_cap_try ::
  "real list option \<Rightarrow> real list option \<Rightarrow> real list option \<Rightarrow> int option \<Rightarrow> int option
     \<Rightarrow> (unit, ur) prog" where
  "remove_cap_try home_arg source target gripper_open_arg gripper_close_arg =
     steps [construct_gripper,
            prepare_gripper gripper_open_arg gripper_close_arg,
            method_call FingerGripperController_methods ''open_gripper'' (ret ()),
            bnd (add_at source (Some 2) (Some 0.06)) (\<lambda>above_goal. \<lambda>u.
              steps [call (MoveL above_goal (acceleration u) (velocity u)),
                     movel source 0.2 0.2] u),
            method_call FingerGripperController_methods ''close_gripper'' (ret ()),
            emit (Print ''Removing cap''),
            call (SpeedlTool [0, 0, - 0.001, 0, 0, - 3.14] 2 7),
            emit (Sleep (7 + 0.5)),
            call (TranslateTool [0, 0, - 0.03] 0.5 0.5),
            home home_arg,
            with_gripper_controller (\<lambda>self. place self target (Some ''z'') (Some 0.05)),
            home home_arg]"

definition remove_cap ::
  "real list option \<Rightarrow> real list option \<Rightarrow> real list option \<Rightarrow> int option \<Rightarrow> int option
     \<Rightarrow> (unit, ur) prog" where
  "remove_cap home_arg source target gripper_open_arg gripper_close_arg =
     local_frame
    (sq (home home_arg)
    (try_except
       (remove_cap_try home_arg source target gripper_open_arg gripper_close_arg)
       print_exception))"

definition place_cap_try ::
  "real list option \<Rightarrow> real list option \<Rightarrow> real list option \<Rightarrow> int option \<Rightarrow> int option
     \<Rightarrow> (unit, ur) prog" where
  "place_cap_try home_arg source target gripper_open_arg gripper_close_arg =
     steps [construct_gripper,
            prepare_gripper gripper_open_arg gripper_close_arg,
            with_gripper_controller (\<lambda>self. pick self source (Some ''z'') (Some 0.05)),
            home home_arg,
            bnd (add_at target (Some 2) (Some 0.06)) (\<lambda>above_goal. \<lambda>u.
              steps [call (MoveL above_goal (acceleration u) (velocity u)),
                     movel target 0.1 0.1] u),
            emit (Print ''Placing cap''),
            call (SpeedlTool [0, 0, 0.0001, 0, 0, 3.14] 2 6),
            emit (Sleep (6 + 0.5)),
            method_call FingerGripperController_methods ''open_gripper'' (ret ()),
            call (TranslateTool [0, 0, - 0.03] 0.5 0.5),
            home home_arg]"

definition place_cap ::
  "real list option \<Rightarrow> real list option \<Rightarrow> real list option \<Rightarrow> int option \<Rightarrow> int option
     \<Rightarrow> (unit, ur) prog" where
  "place_cap home_arg source target gripper_open_arg gripper_close_arg =
     local_frame
    (sq (home home_arg)
    (try_except
       (place_cap_try home_arg source target gripper_open_arg gripper_close_arg)
       print_exception))"

text \<open>\<open>radians(180)\<close>, as the float prints.\<close>

definition radians_180 :: real where
  "radians_180 = 3.141592653589793"

definition pick_and_flip_object_rest ::
  "real list option \<Rightarrow> real list option \<Rightarrow> string option \<Rightarrow> int option \<Rightarrow> int option
     \<Rightarrow> (unit, ur) prog" where
  "pick_and_flip_object_rest home_arg target approach_axis gripper_open_arg gripper_close_arg =
     steps [prepare_gripper gripper_open_arg gripper_close_arg,
            with_gripper_controller (\<lambda>self. pick self target approach_axis (Some 0.05)),
            bnd (call_val GetJ getj_env) (\<lambda>cur_j.
            bnd (add_at (Some cur_j) (Some 5) (Some radians_180)) (\<lambda>rotate_j.
            sq (\<lambda>u. if robot u then call (MoveJ rotate_j 0.6 0.6) u
                     else raise (NameError ''robot'') u)
           (bnd (call_val GetL getl_env) (\<lambda>cur_l.
            bnd (index cur_l 3) (\<lambda>l3. bnd (setitem target 3 l3) (\<lambda>target.
            bnd (index cur_l 4) (\<lambda>l4. bnd (setitem target 4 l4) (\<lambda>target.
            bnd (index cur_l 5) (\<lambda>l5. bnd (setitem target 5 l5) (\<lambda>target.
            steps [with_gripper_controller (\<lambda>self. place self target approach_axis (Some 0.05)),
                   home home_arg]))))))))))]"

definition pick_and_flip_object_try ::
  "real list option \<Rightarrow> real list option \<Rightarrow> string option \<Rightarrow> int option \<Rightarrow> int option
     \<Rightarrow> (unit, ur) prog" where
  "pick_and_flip_object_try home_arg target approach_axis gripper_open_arg gripper_close_arg =
     sq construct_gripper
       (pick_and_flip_object_rest home_arg target approach_axis gripper_open_arg gripper_close_arg)"

definition pick_and_flip_object ::
  "real list option \<Rightarrow> real list option \<Rightarrow> string option \<Rightarrow> real option \<Rightarrow> int option \<Rightarrow> int option
     \<Rightarrow> (unit, ur) prog" where
  "pick_and_flip_object home_arg target approach_axis target_approach_distance
       gripper_open_arg gripper_close_arg =
     local_frame
    (sq (home home_arg)
    (try_finally
       (try_except
          (pick_and_flip_object_try home_arg target approach_axis gripper_open_arg gripper_close_arg)
          print_exception)
       (with_gripper_controller disconnect_gripper)))"

text \<open>The screwdriver and pipette controllers this file calls are not the ones under
  \<open>ur_tools\<close> here; each of their calls is a numbered call into the environment.\<close>

definition robotiq_screwdriver_transfer_try :: "(unit, ur) prog" where
  "robotiq_screwdriver_transfer_try =
     steps [call (Collaborator ''ScrewdriverController''),
            call (Collaborator ''sr.screwdriver.activate_screwdriver''),
            call (Collaborator ''sr.transfer''),
            call (Collaborator ''sr.screwdriver.disconnect'')]"

definition robotiq_screwdriver_transfer :: "real list option \<Rightarrow> (unit, ur) prog" where
  "robotiq_screwdriver_transfer home_arg =
     steps [home home_arg,
            try_except robotiq_screwdriver_transfer_try print_exception,
            home home_arg]"

definition pipette_transfer_try :: "real list option \<Rightarrow> (unit, ur) prog" where
  "pipette_transfer_try home_arg =
     steps [call (Collaborator ''TricontinentPipetteController''),
            call (Collaborator ''pipette.connect_pipette''),
            call (Collaborator ''pipette.pick_tip''),
            home home_arg,
            call (Collaborator ''pipette.transfer_sample''),
            call (Collaborator ''pipette.eject_tip''),
            call (Collaborator ''pipette.disconnect_pipette''),
            emit (Print ''Disconnecting from the pipette'')]"

definition pipette_transfer ::
  "real list option \<Rightarrow> real list option \<Rightarrow> real list option \<Rightarrow> (unit, ur) prog" where
  "pipette_transfer home_arg tip_loc source =
     (if falsy_list tip_loc \<or> falsy_list source
      then raise (Exception ''Please provide both the source and target loactions to make a transfer'')
      else
        try_finally
          (try_except (pipette_transfer_try home_arg) print_exception)
          (ret ()))"

subsection \<open>Running a program on the controller\<close>

text \<open>
  The \<open>while\<close> loop of \<open>run_urp_program\<close>, on its two variables.  It has no bound, so it
  is a partial function: \<open>None\<close> is the loop that never ends.
\<close>

partial_function (option) poll_loop ::
    "string \<Rightarrow> int \<Rightarrow> ur \<Rightarrow> ((exn + unit) \<times> ur) option" where
  "poll_loop program_status ready_status_count u =
     (if program_status = ''BUSY'' then
        (case get_movement_state u of
           (Inl err, u1) \<Rightarrow> Some (Inl err, u1)
         | (Inr movement_state, u1) \<Rightarrow>
             if movement_state = ''READY'' then
               (if ready_status_count + 1 \<ge> 6
                then poll_loop ''READY'' (ready_status_count + 1) (snd (emit (Sleep 3) u1))
                else poll_loop program_status (ready_status_count + 1) (snd (emit (Sleep 3) u1)))
             else poll_loop program_status 0 (snd (emit (Sleep 3) u1)))
      else Some (Inr (), u))"

definition run_urp_program ::
  "string option \<Rightarrow> string option \<Rightarrow> ur \<Rightarrow> ((exn + (string \<times> string) list) \<times> ur) option" where
  "run_urp_program transfer_file_path program_name u =
     (case program_name of
        None \<Rightarrow> Some (Inl (ValueError ''Provide program name!''), u)
      | Some name \<Rightarrow>
        if name = [] then Some (Inl (ValueError ''Provide program name!''), u)
        else
        case steps [whenever (\<not> falsy_str transfer_file_path)
                      (steps [call (Collaborator ''ur_dashboard.transfer_program''), emit (Sleep 2)]),
                    call (Collaborator ''ur_dashboard.load_program''),
                    emit (Sleep 2),
                    call (Collaborator ''ur_dashboard.run_program''),
                    emit (Sleep 5),
                    emit (Print (''Running the URP program:  '' @ name))] u of
          (Inl err, u1) \<Rightarrow> Some (Inl err, u1)
        | (Inr v, u1) \<Rightarrow>
            (case poll_loop ''BUSY'' 0 u1 of
               None \<Rightarrow> None
             | Some (Inl err, u2) \<Rightarrow> Some (Inl err, u2)
             | Some (Inr v, u2) \<Rightarrow>
                 Some (Inr [(''output_code'', ''0''),
                            (''output_msg'', ''Successfully finished '' @ name),
                            (''output_log'', ''seconds_elapsed:'' @ ''0'')], u2)))"

section \<open>Observations and concrete runs\<close>

subsection \<open>What a run of the dashboard client shows\<close>

text \<open>The byte strings handed to \<open>sendall\<close>, in order.\<close>

definition sent_commands :: "action list \<Rightarrow> string list" where
  "sent_commands tr = concat (map (\<lambda>a. case a of SendAll bytes \<Rightarrow> [bytes] | _ \<Rightarrow> []) tr)"

definition newline :: string where
  "newline = [CHR 0x0A]"

text \<open>The four queries that open every pass of \<open>initialize\<close>.\<close>

definition status_queries :: "string list" where
  "status_queries = [''robotmode'' @ newline, ''get operational mode'' @ newline,
                     ''safetystatus'' @ newline, ''is in remote control'' @ newline]"

text \<open>The state in which the \<open>k\<close>-th further pass of \<open>initialize\<close> starts.\<close>

fun passes :: "nat \<Rightarrow> dashboard \<Rightarrow> dashboard" where
  "passes 0 d = d"
| "passes (Suc k) d = passes k (snd (initialize_pass d))"

text \<open>The pass that starts in \<open>d\<close> is answered robot mode RUNNING and safety status
  NORMAL (compared as the code compares them, in upper case).\<close>

definition reports_ready :: "dashboard \<Rightarrow> bool" where
  "reports_ready d =
     (case robot_mode d of
        (Inl err, d1) \<Rightarrow> False
      | (Inr rm, d1) \<Rightarrow>
          (case get_operational_mode d1 of (om, d2) \<Rightarrow>
             (case safety_status d2 of
                (Inl err, d3) \<Rightarrow> False
              | (Inr ss, d3) \<Rightarrow> str_upper rm = ''RUNNING'' \<and> str_upper ss = ''NORMAL'')))"

text \<open>What the operational-mode query of that pass returns.\<close>

definition operational_mode_reported :: "dashboard \<Rightarrow> exn + string option" where
  "operational_mode_reported d = (case robot_mode d of (r, d1) \<Rightarrow> fst (get_operational_mode d1))"

subsection \<open>Concrete controllers\<close>

text \<open>A connected client whose exchanges follow a script.\<close>

definition answering :: "(nat \<Rightarrow> exchange) \<Rightarrow> dashboard" where
  "answering script = \<lparr>trace = [], connection = True, connects = 0, exchanges = 0,
          connect_env = (\<lambda>_. Connected), exchange_env = script\<rparr>"

definition ready_robot :: dashboard where
  "ready_robot = answering (\<lambda>n. Received (
      if n = 0 then ''Robotmode: RUNNING'' @ newline
      else if n = 1 then ''AUTOMATIC'' @ newline
      else if n = 2 then ''Safetystatus: NORMAL'' @ newline
      else ''true'' @ newline))"

definition manual_robot :: dashboard where
  "manual_robot = answering (\<lambda>n. Received (
      if n = 0 then ''Robotmode: RUNNING'' @ newline
      else if n = 1 then ''MANUAL'' @ newline
      else if n = 2 then ''Safetystatus: NORMAL'' @ newline
      else if n = 3 then ''true'' @ newline
      else ''Operational mode automatic is set'' @ newline))"


text \<open>A controller that stays powered off whatever it is sent: each pass makes the four
  queries and one brake release, and is answered the same five lines.\<close>

definition stuck_script :: "nat \<Rightarrow> exchange" where
  "stuck_script n = Received (
      if n mod 5 = 0 then ''Robotmode: POWER_OFF'' @ newline
      else if n mod 5 = 1 then ''AUTOMATIC'' @ newline
      else if n mod 5 = 2 then ''Safetystatus: NORMAL'' @ newline
      else if n mod 5 = 3 then ''false'' @ newline
      else ''Brake releasing'' @ newline)"

definition stuck_robot :: dashboard where
  "stuck_robot = answering stuck_script"

definition stuck :: "dashboard \<Rightarrow> bool" where
  "stuck d = (exchange_env d = stuck_script \<and> connection d \<and> exchanges d mod 5 = 0)"

text \<open>A controller that greets once more after the client has reconnected, and one
  that greets and answers.\<close>

definition greeting_twice :: dashboard where
  "greeting_twice = answering (\<lambda>n. Received (banner @ newline @ banner @ newline))"

definition greeting_once :: dashboard where
  "greeting_once = answering (\<lambda>n. Received (banner @ newline @ ''Robotmode: RUNNING'' @ newline))"

subsection \<open>What a run of the gripper controller and the facade shows\<close>

text \<open>The axis names that have a branch in \<open>pick\<close> and \<open>place\<close>.\<close>

definition recognized_axes :: "string set" where
  "recognized_axes = {''z'', ''y'', ''-y'', ''x'', ''-x''}"

text \<open>The positions commanded to the gripper, in order.\<close>

definition gripper_positions :: "action list \<Rightarrow> int list" where
  "gripper_positions tr =
     concat (map (\<lambda>a. case a of GripperMoveAndWait position speed force \<Rightarrow> [position] | _ \<Rightarrow> []) tr)"

text \<open>The state in which the handler leaves a task method after printing \<open>err\<close>; the
  state in which the \<open>try\<close> block of a task method starts (after the first homing), and
  the one in which it ends.\<close>

definition printing :: "exn \<Rightarrow> ur \<Rightarrow> ur" where
  "printing err u = u\<lparr>trace := trace u @ [PrintExn err]\<rparr>"

definition homed :: "ur \<Rightarrow> ur" where
  "homed u = snd (home None u)"

definition after_try :: "(unit, ur) prog \<Rightarrow> ur \<Rightarrow> ur" where
  "after_try body u = snd (body (homed u))"

text \<open>The state in which the constructor's statement of a gripper task leaves the cell,
  and the one in which the rest of the \<open>try\<close> block ends.\<close>

definition constructed :: "ur \<Rightarrow> ur" where
  "constructed u = snd (construct_gripper (homed u))"

definition after_rest :: "(unit, ur) prog \<Rightarrow> ur \<Rightarrow> ur" where
  "after_rest body u = snd (body (constructed u))"

text \<open>A command keeps the local name bound: when it starts with \<open>gripper_controller\<close>
  bound, it ends, returning or raising, with the name still bound.\<close>

definition keeps_bound :: "('a, ur) prog \<Rightarrow> bool" where
  "keeps_bound m = (\<forall>u. gripper_controller u \<noteq> None \<longrightarrow> gripper_controller (snd (m u)) \<noteq> None)"

subsection \<open>What the polling loop sees\<close>

text \<open>
  Counted from the state \<open>u\<close> in which the loop starts: the \<open>k\<close>-th call of
  \<open>get_movement_state\<close> finds the joint angles unchanged; six such polls in a row
  end at poll \<open>n\<close>; poll \<open>n\<close> is the first to complete six in a row, no poll up to
  it having raised; and the state after \<open>j\<close> polls, each followed by its sleep.
\<close>

definition poll_ready :: "ur \<Rightarrow> nat \<Rightarrow> bool" where
  "poll_ready u k =
     ((if k = 0 then robot_current_joint_angles u
       else Some (map (format_2f u) (getj_env u (calls u + k - 1))))
      = Some (map (format_2f u) (getj_env u (calls u + k))))"

definition six_ready_at :: "ur \<Rightarrow> nat \<Rightarrow> bool" where
  "six_ready_at u n = (5 \<le> n \<and> (\<forall>k. n - 5 \<le> k \<and> k \<le> n \<longrightarrow> poll_ready u k))"

definition finishes_at :: "ur \<Rightarrow> nat \<Rightarrow> bool" where
  "finishes_at u n =
     (six_ready_at u n \<and> (\<forall>m<n. \<not> six_ready_at u m)
      \<and> (\<forall>k\<le>n. raises_env u (calls u + k) = None))"

definition polled :: "nat \<Rightarrow> ur \<Rightarrow> ur" where
  "polled j u = u\<lparr>calls := calls u + j,
                  trace := trace u @ concat (replicate j [GetJ, Sleep 3]),
                  robot_current_joint_angles :=
                    (if j = 0 then robot_current_joint_angles u
                     else Some (map (format_2f u) (getj_env u (calls u + j - 1))))\<rparr>"

text \<open>The value of \<open>ready_status_count\<close> before poll \<open>j\<close>, and the bookkeeping of the
  loop's correctness proof.\<close>

fun streak :: "ur \<Rightarrow> nat \<Rightarrow> nat" where
  "streak u 0 = 0"
| "streak u (Suc j) = (if poll_ready u j then Suc (streak u j) else 0)"

definition stops_at :: "ur \<Rightarrow> nat \<Rightarrow> bool" where
  "stops_at u n = (6 \<le> streak u (Suc n) \<and> (\<forall>m<n. streak u (Suc m) < 6)
                    \<and> (\<forall>k\<le>n. raises_env u (calls u + k) = None))"

definition on_track :: "ur \<Rightarrow> nat \<Rightarrow> string \<Rightarrow> int \<Rightarrow> ur \<Rightarrow> bool" where
  "on_track u j status c s =
     (status = ''BUSY'' \<and> c = int (streak u j) \<and> s = polled j u
      \<and> (\<forall>m<j. streak u (Suc m) < 6) \<and> (\<forall>k<j. raises_env u (calls u + k) = None))"

definition outcome_ok :: "ur \<Rightarrow> (exn + unit) \<times> ur \<Rightarrow> bool" where
  "outcome_ok u y =
     (\<exists>n. (fst y = Inr () \<and> stops_at u n \<and> snd y = polled (Suc n) u)
        \<or> (\<exists>err. fst y = Inl err \<and> raises_env u (calls u + n) = Some err))"

subsection \<open>Concrete cells\<close>

text \<open>A controller object as the constructor leaves it, and a cell in which no library
  call raises and the gripper is already active.\<close>

definition fitted_gripper :: finger_gripper where
  "fitted_gripper = \<lparr>host = ''192.168.1.102'', PORT = 63352, gripper_close = 130, griper_open = 0,
      gripper_speed = 150, gripper_force = 0, acceleration = 0.5, velocity = 0.2,
      gripper_open = None, gripper = True\<rparr>"

definition taken_over :: finger_gripper where
  "taken_over = fitted_gripper\<lparr>gripper_close := 240, gripper_open := Some 190\<rparr>"

definition two_decimals :: "real \<Rightarrow> string" where
  "two_decimals x = (if x = 0 then ''0.00'' else if x = 1 then ''1.00'' else ''2.00'')"

definition quiet_cell :: cell where
  "quiet_cell = \<lparr>trace = [], calls = 0, raises_env = (\<lambda>n. None), is_active_env = (\<lambda>n. True),
      getj_env = (\<lambda>n. [0, 0, 0, 0, 0, 0]), getl_env = (\<lambda>n. [0.3, 0.1, 0.2, 3.14, 0, 0]),
      format_2f = two_decimals\<rparr>"

text \<open>The facade on such a cell, run as a script (the module-level names are bound).\<close>

definition quiet_ur :: ur where
  "quiet_ur = \<lparr>trace = [], calls = 0, raises_env = (\<lambda>n. None), is_active_env = (\<lambda>n. True),
      getj_env = (\<lambda>n. [0, 0, 0, 0, 0, 0]), getl_env = (\<lambda>n. [0.3, 0.1, 0.2, 3.14, 0, 0]),
      format_2f = two_decimals,
      hostname = ''192.168.1.102'', acceleration = 0.5, velocity = 0.5,
      robot_current_joint_angles = Some (map two_decimals [0, 0, 0, 0, 0, 0]),
      gripper_controller = None, robot = True,
      hex_key = Some [0.4, - 0.2, 0.2, 3.14, 0, 0]\<rparr>"

definition deck :: "real list" where
  "deck = [0.3, - 0.1, 0.1, 1.2, 1.2, - 1.2]"

text \<open>The facade imported as a module (the module-level names are unbound), and on a
  cell whose \<open>k\<close>-th library call times out.\<close>

definition library_ur :: ur where
  "library_ur = quiet_ur\<lparr>robot := False, hex_key := None\<rparr>"

definition failing_at :: "nat \<Rightarrow> ur" where
  "failing_at k = library_ur\<lparr>raises_env := (\<lambda>n. if n = k then Some (OSError ''timed out'') else None)\<rparr>"

text \<open>An arm that moves during the first two polls and then rests, and one that never
  rests.\<close>

definition settling_ur :: ur where
  "settling_ur = quiet_ur\<lparr>getj_env := (\<lambda>n. [if n = 0 then 1 else 2, 0, 0, 0, 0, 0])\<rparr>"

definition oscillating_ur :: ur where
  "oscillating_ur = quiet_ur\<lparr>getj_env := (\<lambda>n. [if even n then 1 else 2, 0, 0, 0, 0, 0])\<rparr>"

section \<open>Properties of the dashboard client\<close>

subsection \<open>Running commands\<close>

lemma bnd_InrE:
  assumes "bnd m k s = (Inr v, s')"
  obtains a s1 where "m s = (Inr a, s1)" and "k a s1 = (Inr v, s')"
  using assms by (auto simp: bnd_def split: prod.splits sum.splits)


lemmas run_defs = send_command_def send_command_try_def bnd_def sq_def ret_def raise_def emit_def
  sendall_recv_def encode_ascii_def banner_def str_find_def second_token_def index_def
  str_strip_def is_space_def whitespace_def answering_def

lemmas eval_defs = run_defs robot_mode_def safety_status_def get_operational_mode_def
  is_in_remote_control_def set_operational_mode_def upper_of_def whenever_def eq_False_def
  str_upper_def upper_char_def ascii_lowercase_def ascii_uppercase_def newline_def
  status_queries_def

subsection \<open>Searching and trimming\<close>

lemma find_at_absent: "find_at s sub i = - 1 \<longleftrightarrow> \<not> sublist sub s"
proof (induction s arbitrary: i)
  case Nil
  then show ?case by auto
next
  case (Cons c cs)
  then show ?case by (auto simp: sublist_Cons_right)
qed

lemma str_find_absent: "str_find s sub = - 1 \<longleftrightarrow> \<not> sublist sub s"
  by (simp add: str_find_def find_at_absent)

lemma sublist_str_strip: "sublist (str_strip s) s"
proof -
  have "suffix (dropWhile is_space s) s" by (rule suffix_dropWhile)
  moreover have "prefix (rev (dropWhile is_space (rev (dropWhile is_space s)))) (dropWhile is_space s)"
    by (metis rev_rev_ident suffix_dropWhile suffix_to_prefix)
  ultimately show ?thesis unfolding str_strip_def
    by (meson prefix_imp_sublist suffix_imp_sublist sublist_order.order_trans)
qed

subsection \<open>\<open>send_command\<close>\<close>

lemma connect_never_raises:
  "\<exists>d'. connect d = (Inr (), d') \<and> exchanges d' = exchanges d \<and> exchange_env d' = exchange_env d"
  by (simp add: connect_def Let_def sq_def bnd_def ret_def emit_def split: connect_outcome.splits)

lemma send_command_try_cases:
  "(\<exists>err d'. send_command_try command response_delay d = (Inl err, d')) \<or>
   (\<exists>response d'. send_command_try command response_delay d =
        (Inr (str_strip (if str_find response banner \<noteq> - 1 then drop 45 response else response)), d')
      \<and> exchange_env d (exchanges d) = Received response)"
  using connect_never_raises[of d]
  by (auto simp add: send_command_try_def bnd_def sq_def ret_def raise_def emit_def sendall_recv_def
        encode_ascii_def Let_def
      split: exchange.splits prod.splits sum.splits if_splits)

lemma send_command_result:
  "\<exists>r d'. send_command command response_delay d = (Inr r, d') \<and>
     (case r of
        Some text \<Rightarrow> \<exists>response. exchange_env d (exchanges d) = Received response \<and>
           text = str_strip (if str_find response banner \<noteq> - 1 then drop 45 response else response)
      | None \<Rightarrow> \<exists>err. last (trace d') = PrintExn err)"
  using send_command_try_cases[of command response_delay
          "d\<lparr>trace := trace d @ [Print (''>> '' @ command)]\<rparr>"]
  by (auto simp: send_command_def sq_def bnd_def ret_def emit_def)



text \<open>
  Claim C5, as the code has it.  When the response contains the greeting, what
  \<open>send_command\<close> returns is the response without its first 45 characters, trimmed.
  It is free of the greeting whenever the response has no occurrence of the greeting
  beyond those 45 characters, as when the greeting stands once, at the front.
\<close>

theorem banner_stripped:
  assumes "exchange_env d (exchanges d) = Received response"
    and "str_find response banner \<noteq> - 1"
    and "str_find (drop 45 response) banner = - 1"
    and "fst (send_command command response_delay d) = Inr (Some text)"
  shows "text = str_strip (drop 45 response) \<and> str_find text banner = - 1"
proof -
  from send_command_result[of command response_delay d] assms(1,2,4)
  have t: "text = str_strip (drop 45 response)" by auto
  have "\<not> sublist banner (drop 45 response)" using assms(3) by (simp add: str_find_absent)
  then have "\<not> sublist banner text" using sublist_str_strip[of "drop 45 response"] t
    by (meson sublist_order.order_trans)
  then show ?thesis using t by (simp add: str_find_absent)
qed

theorem banner_stripped_witness:
  "exchange_env greeting_once (exchanges greeting_once)
     = Received (banner @ newline @ ''Robotmode: RUNNING'' @ newline)
   \<and> str_find (banner @ newline @ ''Robotmode: RUNNING'' @ newline) banner \<noteq> - 1
   \<and> str_find (drop 45 (banner @ newline @ ''Robotmode: RUNNING'' @ newline)) banner = - 1
   \<and> fst (send_command ''robotmode'' 0.5 greeting_once) = Inr (Some ''Robotmode: RUNNING'')
   \<and> str_find ''Robotmode: RUNNING'' banner = - 1"
  using banner_stripped[of greeting_once "banner @ newline @ ''Robotmode: RUNNING'' @ newline"
      "''robotmode''" "0.5" "''Robotmode: RUNNING''"]
  by (simp add: greeting_once_def eval_defs)

text \<open>
  The claim as stated fails when the greeting occurs again after the first 45
  characters: the text that comes back is then the greeting itself.
\<close>

theorem banner_twice_returned:
  "str_find (banner @ newline @ banner @ newline) banner \<noteq> - 1
   \<and> exchange_env greeting_twice (exchanges greeting_twice)
       = Received (banner @ newline @ banner @ newline)
   \<and> fst (send_command ''robotmode'' 0.5 greeting_twice) = Inr (Some banner)
   \<and> str_find banner banner \<noteq> - 1"
  by (simp add: greeting_twice_def eval_defs)

subsection \<open>What a command leaves in the trace\<close>

lemma sent_commands_append [simp]:
  "sent_commands (xs @ ys) = sent_commands xs @ sent_commands ys"
  by (simp add: sent_commands_def)

lemma sent_commands_simps [simp]:
  "sent_commands [] = []"
  "sent_commands (SendAll bytes # tr) = bytes # sent_commands tr"
  "sent_commands (Print text # tr) = sent_commands tr"
  "sent_commands (PrintExn err # tr) = sent_commands tr"
  "sent_commands (Sleep t # tr) = sent_commands tr"
  "sent_commands (Recv # tr) = sent_commands tr"
  "sent_commands (SocketConnect # tr) = sent_commands tr"
  "sent_commands (SocketClose # tr) = sent_commands tr"
  by (simp_all add: sent_commands_def)

lemma send_command_Some:
  assumes "send_command command response_delay d = (Inr (Some text), d')"
  shows "connection d' \<and> sent_commands (trace d') = sent_commands (trace d) @ [command @ newline]"
  using assms
  by (auto simp: send_command_def send_command_try_def bnd_def sq_def ret_def raise_def emit_def
        sendall_recv_def encode_ascii_def connect_def Let_def newline_def
      split: exchange.splits prod.splits sum.splits if_splits connect_outcome.splits)

lemma send_command_connected:
  assumes "connection d" and "\<forall>c \<in> set command. (of_char c :: nat) < 128"
  shows "\<exists>r d'. send_command command response_delay d = (Inr r, d') \<and> connection d' \<and>
           sent_commands (trace d') = sent_commands (trace d) @ [command @ newline]"
  using assms
  by (auto simp: send_command_def send_command_try_def bnd_def sq_def ret_def raise_def emit_def
        sendall_recv_def encode_ascii_def Let_def newline_def
      split: exchange.splits prod.splits sum.splits if_splits)

lemma second_token_Inr:
  assumes "second_token out s = (Inr v, s')"
  shows "s' = s \<and> (\<exists>text. out = Some text)"
  using assms
  by (auto simp: second_token_def index_def ret_def raise_def split: option.splits if_splits)

lemma robot_mode_Inr:
  assumes "robot_mode d = (Inr rm, d1)"
  shows "connection d1 \<and> sent_commands (trace d1) = sent_commands (trace d) @ [''robotmode'' @ newline]"
proof -
  from assms obtain out s1 where a: "send_command ''robotmode'' 0.5 d = (Inr out, s1)"
      and b: "second_token out s1 = (Inr rm, d1)"
    unfolding robot_mode_def by (elim bnd_InrE)
  from second_token_Inr[OF b] a send_command_Some[of "''robotmode''" "0.5" d] show ?thesis by auto
qed

lemma safety_status_Inr:
  assumes "safety_status d = (Inr ss, d1)"
  shows "connection d1 \<and> sent_commands (trace d1) = sent_commands (trace d) @ [''safetystatus'' @ newline]"
proof -
  from assms obtain out s1 where a: "send_command ''safetystatus'' 0.5 d = (Inr out, s1)"
      and b: "second_token out s1 = (Inr ss, d1)"
    unfolding safety_status_def by (elim bnd_InrE)
  from second_token_Inr[OF b] a send_command_Some[of "''safetystatus''" "0.5" d] show ?thesis by auto
qed

subsection \<open>Unfolding \<open>initialize\<close>\<close>

declare initialize.simps [simp del]

lemma initialize_returned:
  "initialize_pass d = (Inr True, d') \<Longrightarrow> initialize room d = (Inr (), d')"
  by (subst initialize.simps) simp


lemma initialize_again:
  "initialize_pass d = (Inr False, d') \<Longrightarrow> initialize (Suc room) d = initialize room d'"
  by (subst initialize.simps) simp

lemma initialize_limit:
  "initialize_pass d = (Inr False, d') \<Longrightarrow> initialize 0 d = (Inl RecursionError, d')"
  by (subst initialize.simps) simp

subsection \<open>\<open>initialize\<close> on a robot that is ready\<close>

lemma initialize_when_ready:
  assumes q1: "robot_mode d = (Inr rm, d1)"
    and q2: "get_operational_mode d1 = (Inr (Some om), d2)"
    and q3: "safety_status d2 = (Inr ss, d3)"
    and running: "str_upper rm = ''RUNNING''"
    and normal: "str_upper ss = ''NORMAL''"
  shows "\<exists>d'. initialize room d = (Inr (), d') \<and>
           sent_commands (trace d') = sent_commands (trace d) @ status_queries @
             (if str_upper om = ''MANUAL'' then [''set operational mode automatic'' @ newline] else [])"
proof -
  have c1: "connection d1"
    and t1: "sent_commands (trace d1) = sent_commands (trace d) @ [''robotmode'' @ newline]"
    using robot_mode_Inr[OF q1] by auto
  have c2: "connection d2"
    and t2: "sent_commands (trace d2) = sent_commands (trace d1) @ [''get operational mode'' @ newline]"
    using send_command_Some[OF q2[unfolded get_operational_mode_def]] by auto
  have c3: "connection d3"
    and t3: "sent_commands (trace d3) = sent_commands (trace d2) @ [''safetystatus'' @ newline]"
    using safety_status_Inr[OF q3] by auto
  obtain rc d4 where q4: "is_in_remote_control d3 = (Inr rc, d4)" and c4: "connection d4"
    and t4: "sent_commands (trace d4) = sent_commands (trace d3) @ [''is in remote control'' @ newline]"
    using send_command_connected[OF c3, of "''is in remote control''" "0.5"]
    unfolding is_in_remote_control_def by auto
  show ?thesis
  proof (cases "str_upper om = ''MANUAL''")
    case False
    have "initialize_pass d = (Inr True, d4\<lparr>trace := trace d4 @ [Print ''Robot is initialized'']\<rparr>)"
      unfolding initialize_pass_def
      by (simp add: q1 q2 q3 q4 running normal False
           upper_of_def whenever_def eq_False_def sq_def bnd_def ret_def emit_def)
    from initialize_returned[OF this, of room] show ?thesis using False t1 t2 t3 t4
      by (simp add: status_queries_def)
  next
    case True
    let ?d5 = "d4\<lparr>trace := trace d4 @
       [Print ''Operation mode is currently set to MANUAL, switching to AUTOMATIC'']\<rparr>"
    obtain r d6 where q6: "set_operational_mode ''automatic'' ?d5 = (Inr r, d6)"
      and t6: "sent_commands (trace d6) = sent_commands (trace ?d5) @ [''set operational mode automatic'' @ newline]"
      using send_command_connected[of ?d5 "''set operational mode automatic''" "0.5"] c4
      unfolding set_operational_mode_def by auto
    have "initialize_pass d = (Inr True, d6\<lparr>trace := trace d6 @ [Print ''Robot is initialized'']\<rparr>)"
      unfolding initialize_pass_def
      by (simp add: q1 q2 q3 q4 running normal True
           upper_of_def whenever_def eq_False_def sq_def bnd_def ret_def emit_def q6)
    from initialize_returned[OF this, of room] show ?thesis using True t1 t2 t3 t4 t6
      by (simp add: status_queries_def)
  qed
qed

text \<open>
  Claim C1, as the code has it.  When the pass is answered robot mode RUNNING and
  safety status NORMAL, and the operational-mode query is answered at all,
  \<open>initialize\<close> returns from that first pass, whatever the remote-control query gives
  (and whatever room the call stack has left).
  With an operational mode other than MANUAL the only commands sent are the four status
  queries; with MANUAL (in any letter case) it sends \<open>set operational mode automatic\<close>
  after them and then returns.
\<close>

theorem initialize_idempotent:
  assumes "reports_ready d" and "operational_mode_reported d = Inr (Some om)"
  shows "\<exists>d'. initialize room d = (Inr (), d') \<and>
           sent_commands (trace d') = sent_commands (trace d) @ status_queries @
             (if str_upper om = ''MANUAL'' then [''set operational mode automatic'' @ newline] else [])"
proof -
  obtain r1 d1 where q1: "robot_mode d = (r1, d1)" by (cases "robot_mode d")
  obtain r2 d2 where q2: "get_operational_mode d1 = (r2, d2)" by (cases "get_operational_mode d1")
  obtain r3 d3 where q3: "safety_status d2 = (r3, d3)" by (cases "safety_status d2")
  from assms(1) q1 q2 q3 obtain rm ss where "r1 = Inr rm" "r3 = Inr ss"
      "str_upper rm = ''RUNNING''" "str_upper ss = ''NORMAL''"
    by (auto simp: reports_ready_def split: sum.splits)
  moreover from assms(2) q1 q2 have "r2 = Inr (Some om)"
    by (simp add: operational_mode_reported_def)
  ultimately show ?thesis using initialize_when_ready[of d rm d1 om d2 ss d3 room] q1 q2 q3 by simp
qed

lemma ready_robot_reports:
  "reports_ready ready_robot \<and> operational_mode_reported ready_robot = Inr (Some ''AUTOMATIC'')"
  by (simp add: reports_ready_def operational_mode_reported_def ready_robot_def eval_defs)

theorem initialize_idempotent_witness:
  "reports_ready ready_robot \<and> operational_mode_reported ready_robot = Inr (Some ''AUTOMATIC'') \<and>
   (\<exists>d'. initialize 0 ready_robot = (Inr (), d') \<and> sent_commands (trace d') = status_queries)"
  using initialize_idempotent[of ready_robot "''AUTOMATIC''" 0] ready_robot_reports
  by (simp add: eval_defs ready_robot_def)

text \<open>
  The claim as stated fails for operational mode MANUAL: the robot reports RUNNING and
  NORMAL, and \<open>initialize\<close> still sends a command that changes the controller's mode.
\<close>

theorem initialize_manual_sends:
  "reports_ready manual_robot \<and>
   fst (initialize 0 manual_robot) = Inr () \<and>
   sent_commands (trace (snd (initialize 0 manual_robot))) =
     status_queries @ [''set operational mode automatic'' @ newline]"
  using initialize.simps[of 0 manual_robot]
  by (simp add: reports_ready_def manual_robot_def initialize_pass_def eval_defs)

subsection \<open>\<open>initialize\<close> on a robot that never gets ready\<close>




lemma initialize_exhausts:
  "\<forall>k\<le>room. fst (initialize_pass (passes k d)) = Inr False
     \<Longrightarrow> initialize room d = (Inl RecursionError, passes (Suc room) d)"
proof (induction room arbitrary: d)
  case 0
  then have "initialize_pass d = (Inr False, snd (initialize_pass d))"
    by (simp add: prod_eq_iff)
  from initialize_limit[OF this] show ?case by simp
next
  case (Suc room)
  from Suc.prems have p: "initialize_pass d = (Inr False, snd (initialize_pass d))"
    by (metis le0 passes.simps(1) prod.collapse)
  have "\<forall>k\<le>room. fst (initialize_pass (passes k (snd (initialize_pass d)))) = Inr False"
  proof (intro allI impI)
    fix k assume "k \<le> room"
    then have "Suc k \<le> Suc room" by simp
    with Suc.prems have "fst (initialize_pass (passes (Suc k) d)) = Inr False" by blast
    then show "fst (initialize_pass (passes k (snd (initialize_pass d)))) = Inr False" by simp
  qed
  from Suc.IH[OF this] initialize_again[OF p, of room] show ?case by simp
qed



lemma stuck_script_round:
  assumes "n mod 5 = 0"
  shows "stuck_script n = Received (''Robotmode: POWER_OFF'' @ newline)"
    and "stuck_script (Suc n) = Received (''AUTOMATIC'' @ newline)"
    and "stuck_script (Suc (Suc n)) = Received (''Safetystatus: NORMAL'' @ newline)"
    and "stuck_script (Suc (Suc (Suc n))) = Received (''false'' @ newline)"
    and "stuck_script (Suc (Suc (Suc (Suc n)))) = Received (''Brake releasing'' @ newline)"
    and "Suc (Suc (Suc (Suc (Suc n)))) mod 5 = 0"
proof -
  have m: "Suc n mod 5 = 1" "Suc (Suc n) mod 5 = 2" "Suc (Suc (Suc n)) mod 5 = 3"
     "Suc (Suc (Suc (Suc n))) mod 5 = 4" "Suc (Suc (Suc (Suc (Suc n)))) mod 5 = 0"
    using assms by presburger+
  show "stuck_script n = Received (''Robotmode: POWER_OFF'' @ newline)"
    and "stuck_script (Suc n) = Received (''AUTOMATIC'' @ newline)"
    and "stuck_script (Suc (Suc n)) = Received (''Safetystatus: NORMAL'' @ newline)"
    and "stuck_script (Suc (Suc (Suc n))) = Received (''false'' @ newline)"
    and "stuck_script (Suc (Suc (Suc (Suc n)))) = Received (''Brake releasing'' @ newline)"
    and "Suc (Suc (Suc (Suc (Suc n)))) mod 5 = 0"
    using assms m by (simp_all add: stuck_script_def)
qed

lemma stuck_pass:
  assumes "stuck d"
  shows "fst (initialize_pass d) = Inr False \<and> stuck (snd (initialize_pass d)) \<and> \<not> reports_ready d"
  using assms stuck_script_round[of "exchanges d"]
  by (simp add: stuck_def initialize_pass_def reports_ready_def brake_release_def eval_defs)

lemma stuck_passes: "stuck d \<Longrightarrow> stuck (passes k d)"
  by (induction k arbitrary: d) (simp_all add: stuck_pass)

lemma stuck_robot_stuck: "stuck stuck_robot"
  by (simp add: stuck_def stuck_robot_def answering_def)


text \<open>
  A controller that stays powered off and answers every query: the pair is never
  reported and no pass raises.  With room for 997 further nested calls \<open>initialize\<close>
  ends, in \<open>RecursionError\<close>.
\<close>

lemma initialize_hits_recursion_limit:
  "(\<forall>k. \<not> reports_ready (passes k stuck_robot)) \<and>
   fst (initialize 997 stuck_robot) = Inl RecursionError"
proof -
  have "\<forall>k\<le>997. fst (initialize_pass (passes k stuck_robot)) = Inr False"
    using stuck_passes[OF stuck_robot_stuck] stuck_pass by blast
  from initialize_exhausts[OF this] have "fst (initialize 997 stuck_robot) = Inl RecursionError"
    by simp
  moreover have "\<forall>k. \<not> reports_ready (passes k stuck_robot)"
    using stuck_passes[OF stuck_robot_stuck] stuck_pass by blast
  ultimately show ?thesis by blast
qed


section \<open>Properties of the finger gripper controller\<close>

lemmas prog_defs = bnd_def sq_def ret_def raise_def emit_def call_def call_val_def Let_def

lemmas lower_defs = str_lower_def lower_char_def ascii_lowercase_def ascii_uppercase_def falsy_str_def

lemmas gripper_eval = pick_def place_def approach_def negate_def add_at_def gripper_call_def
  lower_defs prog_defs

lemma pick_above:
  assumes "axis_index < length goal"
    and "approach (Some axis) (Some d) w = (Inr (Some axis_index, Some d'), w)"
  shows "\<exists>rest. trace (snd (pick self (Some goal) (Some axis) (Some d) w)) =
           trace w @ Print ''Moving to above goal position''
             # MoveL (goal[axis_index := goal ! axis_index + d'])
                 (finger_gripper.acceleration self) (finger_gripper.velocity self) # rest"
  using assms
  by (auto simp: pick_def add_at_def gripper_call_def prog_defs split: option.splits)

lemma place_above:
  assumes "axis_index < length goal"
    and "approach (Some axis) (Some d) w = (Inr (Some axis_index, Some d'), w)"
  shows "\<exists>rest. trace (snd (place self (Some goal) (Some axis) (Some d) w)) =
           trace w @ Print ''Moving to above goal position''
             # MoveL (goal[axis_index := goal ! axis_index + d'])
                 (finger_gripper.acceleration self) (finger_gripper.velocity self) # rest"
  using assms
  by (auto simp: place_def add_at_def gripper_call_def prog_defs split: option.splits)

lemma approach_minus_y: "approach (Some ''-y'') (Some d) w = (Inr (Some 1, Some (- d)), w)"
  by (simp add: approach_def negate_def lower_defs prog_defs)

lemma approach_z: "approach (Some ''z'') (Some d) w = (Inr (Some 2, Some d), w)"
  by (simp add: approach_def negate_def lower_defs prog_defs)

text \<open>
  Claim C6.  For a goal pose of six coordinates and a positive approach distance, the
  first thing \<open>pick\<close> and \<open>place\<close> do is announce and issue a linear move to the above
  pose, and that pose is the goal with the distance subtracted from coordinate 1 when the
  axis is \<open>-y\<close>, and with the distance added to coordinate 2 when the axis is \<open>z\<close>; the
  other coordinates are those of the goal.
\<close>

theorem above_pose:
  assumes "length goal = 6" and "0 < d"
  shows "(\<exists>rest. trace (snd (pick self (Some goal) (Some ''-y'') (Some d) w)) =
            trace w @ Print ''Moving to above goal position''
              # MoveL (goal[1 := goal ! 1 - d])
                  (finger_gripper.acceleration self) (finger_gripper.velocity self) # rest)
       \<and> (\<exists>rest. trace (snd (place self (Some goal) (Some ''-y'') (Some d) w)) =
            trace w @ Print ''Moving to above goal position''
              # MoveL (goal[1 := goal ! 1 - d])
                  (finger_gripper.acceleration self) (finger_gripper.velocity self) # rest)
       \<and> (\<exists>rest. trace (snd (pick self (Some goal) (Some ''z'') (Some d) w)) =
            trace w @ Print ''Moving to above goal position''
              # MoveL (goal[2 := goal ! 2 + d])
                  (finger_gripper.acceleration self) (finger_gripper.velocity self) # rest)
       \<and> (\<exists>rest. trace (snd (place self (Some goal) (Some ''z'') (Some d) w)) =
            trace w @ Print ''Moving to above goal position''
              # MoveL (goal[2 := goal ! 2 + d])
                  (finger_gripper.acceleration self) (finger_gripper.velocity self) # rest)"
  using assms pick_above[of 1 goal "''-y''" d w "- d" self] place_above[of 1 goal "''-y''" d w "- d" self]
    pick_above[of 2 goal "''z''" d w d self] place_above[of 2 goal "''z''" d w d self]
  by (simp add: approach_minus_y approach_z)

theorem above_pose_witness:
  "length [0.1, 0.2, 0.3, 0, 0, 0 :: real] = 6 \<and> (0 :: real) < 0.05 \<and>
   trace (snd (pick fitted_gripper (Some [0.1, 0.2, 0.3, 0, 0, 0]) (Some ''z'') (Some 0.05) quiet_cell)) =
     [Print ''Moving to above goal position'', MoveL [0.1, 0.2, 0.35, 0, 0, 0] 0.5 0.2,
      Print ''Moving to goal position'', MoveL [0.1, 0.2, 0.3, 0, 0, 0] 0.5 0.2,
      Print ''Closing gripper'', GripperMoveAndWait 130 150 0,
      Print ''Moving back to above goal position'', MoveL [0.1, 0.2, 0.35, 0, 0, 0] 0.5 0.2] \<and>
   trace (snd (place fitted_gripper (Some [0.1, 0.2, 0.3, 0, 0, 0]) (Some ''-y'') (Some 0.05) quiet_cell)) =
     [Print ''Moving to above goal position'', MoveL [0.1, 0.15, 0.3, 0, 0, 0] 0.5 0.2,
      Print ''Moving to goal position'', MoveL [0.1, 0.2, 0.3, 0, 0, 0] 0.5 0.2,
      Print ''Opennig gripper'', GripperMoveAndWait 0 150 0,
      Print ''Moving back to above goal position'', MoveL [0.1, 0.15, 0.3, 0, 0, 0] 0.5 0.2]"
  using above_pose[where goal = "[0.1, 0.2, 0.3, 0, 0, 0]" and d = "0.05"
      and self = fitted_gripper and w = quiet_cell]
  by (simp add: gripper_eval fitted_gripper_def quiet_cell_def)

lemma approach_unrecognized:
  assumes "axis \<noteq> []" and "str_lower axis \<notin> recognized_axes"
  shows "approach (Some axis) distance w = (Inr (None, distance), w)"
  using assms by (simp add: approach_def recognized_axes_def falsy_str_def prog_defs)

text \<open>
  Claim C10, as the code has it.  For a non-empty goal pose and an approach axis that is a
  non-empty string whose lower-case form is none of \<open>z\<close>, \<open>y\<close>, \<open>-y\<close>, \<open>x\<close>, \<open>-x\<close>, the
  axis index stays \<open>None\<close>, and \<open>pick\<close> and \<open>place\<close> raise \<open>TypeError\<close> at the
  subscript, leaving the world as it was: no move and no gripper command has been issued.
\<close>

theorem unrecognized_axis:
  assumes "goal \<noteq> []" and "axis \<noteq> []" and "str_lower axis \<notin> recognized_axes"
  shows "approach (Some axis) distance w = (Inr (None, distance), w)
       \<and> pick self (Some goal) (Some axis) distance w =
           (Inl (TypeError ''list indices must be integers or slices, not NoneType''), w)
       \<and> place self (Some goal) (Some axis) distance w =
           (Inl (TypeError ''list indices must be integers or slices, not NoneType''), w)"
  using assms approach_unrecognized[OF assms(2,3), of distance w]
  by (simp add: pick_def place_def add_at_def prog_defs)

theorem unrecognized_axis_witness:
  "[0.1, 0.2, 0.3, 0, 0, 0 :: real] \<noteq> [] \<and> ''-z'' \<noteq> [] \<and> str_lower ''-z'' \<notin> recognized_axes \<and>
   pick fitted_gripper (Some [0.1, 0.2, 0.3, 0, 0, 0]) (Some ''-z'') (Some 0.05) quiet_cell =
     (Inl (TypeError ''list indices must be integers or slices, not NoneType''), quiet_cell)"
  using unrecognized_axis[where goal = "[0.1, 0.2, 0.3, 0, 0, 0]" and axis = "''-z''"
      and self = fitted_gripper and distance = "Some 0.05" and w = quiet_cell]
  by (simp add: recognized_axes_def lower_defs)

text \<open>
  The claim as stated fails for an axis such as \<open>Z\<close>: it is a string outside the set, yet
  the code lowers it first, takes the \<open>z\<close> branch, and moves.
\<close>

theorem upper_case_axis_moves:
  "''Z'' \<notin> recognized_axes \<and>
   fst (pick fitted_gripper (Some [0.1, 0.2, 0.3, 0, 0, 0]) (Some ''Z'') (Some 0.05) quiet_cell) = Inr () \<and>
   trace (snd (pick fitted_gripper (Some [0.1, 0.2, 0.3, 0, 0, 0]) (Some ''Z'') (Some 0.05) quiet_cell)) =
     [Print ''Moving to above goal position'', MoveL [0.1, 0.2, 0.35, 0, 0, 0] 0.5 0.2,
      Print ''Moving to goal position'', MoveL [0.1, 0.2, 0.3, 0, 0, 0] 0.5 0.2,
      Print ''Closing gripper'', GripperMoveAndWait 130 150 0,
      Print ''Moving back to above goal position'', MoveL [0.1, 0.2, 0.35, 0, 0, 0] 0.5 0.2]"
  by (simp add: gripper_eval fitted_gripper_def quiet_cell_def recognized_axes_def)

section \<open>Properties of the task facade\<close>

lemmas facade_eval = gripper_eval home_def default_home_def construct_gripper_def
  prepare_gripper_def take_over_def local_frame_def unbound_def
  FingerGripperController_def connect_gripper_def disconnect_gripper_def try_except_def
  try_except_else_def try_finally_def in_world_def with_self_def assign_def
  on_gripper_controller_def with_gripper_controller_def keyword_call_def method_call_def
  transfer_def transfer_parameters_def FingerGripperController_methods_def print_exception_def
  setitem_def movel_def index_def falsy_list_def

lemmas world_defs = quiet_ur_def library_ur_def failing_at_def deck_def homed_def two_decimals_def

text \<open>
  Claim C7.  When the source or the target is omitted (\<open>None\<close> or an empty list),
  \<open>gripper_transfer\<close> raises its exception and leaves the world as it was: no homing
  move and no linear move has been issued.
\<close>

theorem gripper_transfer_requires_both:
  assumes "falsy_list source \<or> falsy_list target"
  shows "gripper_transfer home_arg source target source_approach_axis target_approach_axis
           source_approach_distance target_approach_distance gripper_open_arg gripper_close_arg u =
         (Inl (Exception ''Please provide both the source and target loactions to make a transfer''), u)"
  using assms by (simp add: gripper_transfer_def raise_def)

theorem gripper_transfer_requires_both_witness:
  "falsy_list (None :: real list option) \<and>
   gripper_transfer None None (Some deck) (Some ''z'') (Some ''y'') None None (Some 190) (Some 240) quiet_ur =
     (Inl (Exception ''Please provide both the source and target loactions to make a transfer''), quiet_ur)
   \<and> trace quiet_ur = []"
  using gripper_transfer_requires_both[where source = None and target = "Some deck" and u = quiet_ur
      and home_arg = None and source_approach_axis = "Some ''z''" and target_approach_axis = "Some ''y''"
      and source_approach_distance = None and target_approach_distance = None
      and gripper_open_arg = "Some 190" and gripper_close_arg = "Some 240"]
  by (simp add: falsy_list_def quiet_ur_def)

text \<open>
  Claim C3 at a call taken from the script at the end of the file: the method is passed
  open position 190 and close position 240.  The gripper is closed at 240 and opened at 0:
  the passed open position lands in a new attribute \<open>gripper_open\<close>, while \<open>place\<close> reads
  \<open>griper_open\<close>.
\<close>

theorem passed_open_position_ignored:
  "gripper_positions (trace (snd (pick_and_flip_object None (Some deck) (Some ''y'') None
      (Some 190) (Some 240) quiet_ur))) = [240, 0]"
  by (simp add: pick_and_flip_object_def pick_and_flip_object_try_def pick_and_flip_object_rest_def
        facade_eval world_defs gripper_positions_def radians_180_def)

subsection \<open>The local name stays bound\<close>

lemma keeps_boundI:
  "(\<And>u. gripper_controller u \<noteq> None \<Longrightarrow> gripper_controller (snd (m u)) \<noteq> None) \<Longrightarrow> keeps_bound m"
  by (simp add: keeps_bound_def)

lemma keeps_boundD:
  "keeps_bound m \<Longrightarrow> gripper_controller u \<noteq> None \<Longrightarrow> gripper_controller (snd (m u)) \<noteq> None"
  by (simp add: keeps_bound_def)

lemma keeps_ret: "keeps_bound (ret x)"
  by (simp add: keeps_bound_def ret_def)

lemma keeps_raise: "keeps_bound (raise err)"
  by (simp add: keeps_bound_def raise_def)

lemma keeps_emit: "keeps_bound (emit a)"
  by (simp add: keeps_bound_def emit_def)

lemma keeps_call_val: "keeps_bound (call_val a table)"
  by (simp add: keeps_bound_def call_val_def Let_def split: option.splits)

lemma keeps_call: "keeps_bound (call a)"
  by (simp add: call_def keeps_call_val)

lemma keeps_bnd:
  assumes "keeps_bound m" and "\<And>x. keeps_bound (k x)"
  shows "keeps_bound (bnd m k)"
proof (rule keeps_boundI)
  fix u :: ur
  assume b: "gripper_controller u \<noteq> None"
  obtain r u' where m: "m u = (r, u')" by (cases "m u")
  with keeps_boundD[OF assms(1) b] have b': "gripper_controller u' \<noteq> None" by simp
  show "gripper_controller (snd (bnd m k u)) \<noteq> None"
  proof (cases r)
    case (Inl err)
    with m b' show ?thesis by (simp add: bnd_def)
  next
    case (Inr x)
    with m keeps_boundD[OF assms(2)[of x] b'] show ?thesis by (simp add: bnd_def)
  qed
qed

lemma keeps_sq: "keeps_bound m \<Longrightarrow> keeps_bound k \<Longrightarrow> keeps_bound (sq m k)"
  by (simp add: sq_def keeps_bnd)

lemma keeps_steps_Nil: "keeps_bound (steps [])"
  by (simp add: keeps_ret)

lemma keeps_steps_Cons: "keeps_bound m \<Longrightarrow> keeps_bound (steps ms) \<Longrightarrow> keeps_bound (steps (m # ms))"
  by (simp add: keeps_sq)

lemma keeps_if: "keeps_bound m \<Longrightarrow> keeps_bound k \<Longrightarrow> keeps_bound (if c then m else k)"
  by simp

lemma keeps_on_gripper_controller: "keeps_bound (on_gripper_controller m)"
  by (auto simp: keeps_bound_def on_gripper_controller_def split: prod.splits)

lemma keeps_with_gripper_controller:
  "(\<And>self. keeps_bound (k self)) \<Longrightarrow> keeps_bound (with_gripper_controller k)"
  by (auto simp: keeps_bound_def with_gripper_controller_def)

lemma keeps_keyword_call: "keeps_bound body \<Longrightarrow> keeps_bound (keyword_call parameters keywords body)"
  by (simp add: keyword_call_def keeps_raise split: list.splits)

lemma keeps_method_call: "keeps_bound body \<Longrightarrow> keeps_bound (method_call methods name body)"
  by (simp add: method_call_def keeps_raise)

lemma keeps_take_over: "keeps_bound (take_over passed setattr)"
  by (simp add: take_over_def keeps_ret keeps_on_gripper_controller split: option.splits)

lemma keeps_prepare_gripper: "keeps_bound (prepare_gripper gopen gclose)"
  unfolding prepare_gripper_def
  by (intro keeps_steps_Cons keeps_steps_Nil keeps_on_gripper_controller keeps_take_over)

lemma keeps_gripper_call: "keeps_bound (gripper_call self a)"
  by (simp add: gripper_call_def keeps_call keeps_raise)

lemma keeps_negate: "keeps_bound (negate v)"
  by (simp add: negate_def keeps_ret keeps_raise split: option.splits)

lemma keeps_add_at: "keeps_bound (add_at goal axis distance)"
  by (simp add: add_at_def keeps_ret keeps_raise split: option.splits)

lemma keeps_approach: "keeps_bound (approach approach_axis approach_distance)"
  by (simp add: approach_def keeps_ret keeps_bnd keeps_negate)

lemma keeps_index: "keeps_bound (index xs i)"
  by (simp add: index_def keeps_ret keeps_raise)

lemma keeps_setitem: "keeps_bound (setitem target i v)"
  by (simp add: setitem_def keeps_ret keeps_raise split: option.splits)

lemma keeps_movel: "keeps_bound (movel pose a v)"
  by (simp add: movel_def keeps_call keeps_raise split: option.splits)

lemma keeps_home: "keeps_bound (home home_location)"
  unfolding home_def by (intro keeps_steps_Cons keeps_steps_Nil keeps_emit keeps_call)

lemma keeps_pick: "keeps_bound (pick self pick_goal approach_axis approach_distance)"
proof (cases pick_goal)
  case None
  then show ?thesis by (simp add: pick_def keeps_raise)
next
  case (Some goal)
  show ?thesis
  proof (cases "goal = []")
    case True
    with Some show ?thesis by (simp add: pick_def keeps_raise)
  next
    case False
    have "keeps_bound (bnd (approach approach_axis approach_distance) (\<lambda>(axis, approach_distance).
            bnd (add_at (Some goal) axis approach_distance) (\<lambda>above_goal.
            steps [emit (Print ''Moving to above goal position''),
               call (MoveL above_goal (finger_gripper.acceleration self) (finger_gripper.velocity self)),
               emit (Print ''Moving to goal position''),
               call (MoveL goal (finger_gripper.acceleration self) (finger_gripper.velocity self)),
               emit (Print ''Closing gripper''),
               gripper_call self (GripperMoveAndWait
                 (gripper_close self) (gripper_speed self) (gripper_force self)),
               emit (Print ''Moving back to above goal position''),
               call (MoveL above_goal (finger_gripper.acceleration self) (finger_gripper.velocity self))])))"
      by (rule keeps_bnd[OF keeps_approach], simp only: split_paired_all prod.case)
         (intro keeps_bnd keeps_add_at keeps_steps_Cons keeps_steps_Nil keeps_emit keeps_call
            keeps_gripper_call)
    with Some False show ?thesis by (simp add: pick_def)
  qed
qed

lemma keeps_place: "keeps_bound (place self place_goal approach_axis approach_distance)"
proof (cases place_goal)
  case None
  then show ?thesis by (simp add: place_def keeps_raise)
next
  case (Some goal)
  show ?thesis
  proof (cases "goal = []")
    case True
    with Some show ?thesis by (simp add: place_def keeps_raise)
  next
    case False
    have "keeps_bound (bnd (approach approach_axis approach_distance) (\<lambda>(axis, approach_distance).
            bnd (add_at (Some goal) axis approach_distance) (\<lambda>above_goal.
            steps [emit (Print ''Moving to above goal position''),
               call (MoveL above_goal (finger_gripper.acceleration self) (finger_gripper.velocity self)),
               emit (Print ''Moving to goal position''),
               call (MoveL goal (finger_gripper.acceleration self) (finger_gripper.velocity self)),
               emit (Print ''Opennig gripper''),
               gripper_call self (GripperMoveAndWait
                 (griper_open self) (gripper_speed self) (gripper_force self)),
               emit (Print ''Moving back to above goal position''),
               call (MoveL above_goal (finger_gripper.acceleration self) (finger_gripper.velocity self))])))"
      by (rule keeps_bnd[OF keeps_approach], simp only: split_paired_all prod.case)
         (intro keeps_bnd keeps_add_at keeps_steps_Cons keeps_steps_Nil keeps_emit keeps_call
            keeps_gripper_call)
    with Some False show ?thesis by (simp add: place_def)
  qed
qed

lemma keeps_transfer:
  "keeps_bound (transfer self source target source_approach_axis target_approach_axis
       source_approach_distance target_approach_distance)"
  unfolding transfer_def
  by (intro keeps_steps_Cons keeps_steps_Nil keeps_pick keeps_place keeps_emit)

lemma keeps_disconnect_gripper: "keeps_bound (disconnect_gripper self)"
  by (auto simp: keeps_bound_def disconnect_gripper_def try_except_else_def gripper_call_def
        prog_defs split: option.splits)

lemma keeps_reading:
  assumes "\<And>u0. keeps_bound (f u0)"
  shows "keeps_bound (\<lambda>u. f u u)"
  using assms by (simp add: keeps_bound_def)

lemma gripper_transfer_rest_keeps:
  "keeps_bound (gripper_transfer_rest source target source_axis target_axis source_distance
     target_distance gopen gclose)"
  unfolding gripper_transfer_rest_def
  by (intro keeps_steps_Cons keeps_steps_Nil keeps_prepare_gripper keeps_with_gripper_controller
        keeps_keyword_call keeps_transfer keeps_emit keeps_disconnect_gripper)

lemma keeps_approach_screw:
  "keeps_bound (\<lambda>u. steps [call (MoveL above_goal (ur.acceleration u) (ur.velocity u)),
                     movel screw_loc 0.2 0.2,
                     call (MoveL above_goal (ur.acceleration u) (ur.velocity u))] u)"
  by (rule keeps_reading[where f = "\<lambda>u0. steps [call (MoveL above_goal (ur.acceleration u0) (ur.velocity u0)),
                     movel screw_loc 0.2 0.2,
                     call (MoveL above_goal (ur.acceleration u0) (ur.velocity u0))]"])
     (intro keeps_steps_Cons keeps_steps_Nil keeps_call keeps_movel)

lemma keeps_approach_target:
  "keeps_bound (\<lambda>u. steps [call (MoveL above_target (ur.acceleration u) (ur.velocity u)),
                     movel target 0.2 0.2] u)"
  by (rule keeps_reading[where f = "\<lambda>u0. steps [call (MoveL above_target (ur.acceleration u0) (ur.velocity u0)),
                     movel target 0.2 0.2]"])
     (intro keeps_steps_Cons keeps_steps_Nil keeps_call keeps_movel)

lemma keeps_place_hex_key:
  "keeps_bound (\<lambda>u. case hex_key u of
                    None \<Rightarrow> raise (NameError ''hex_key'') u
                  | Some key \<Rightarrow>
                      with_gripper_controller (\<lambda>self. place self (Some key) (Some ''z'') (Some 0.05)) u)"
proof (rule keeps_boundI)
  fix u :: ur
  assume b: "gripper_controller u \<noteq> None"
  show "gripper_controller (snd (case hex_key u of
                    None \<Rightarrow> raise (NameError ''hex_key'') u
                  | Some key \<Rightarrow>
                      with_gripper_controller (\<lambda>self. place self (Some key) (Some ''z'') (Some 0.05)) u))
         \<noteq> None"
  proof (cases "hex_key u")
    case None
    with b show ?thesis by (simp add: raise_def)
  next
    case (Some key)
    have "keeps_bound (with_gripper_controller (\<lambda>self. place self (Some key) (Some ''z'') (Some 0.05)))"
      by (intro keeps_with_gripper_controller keeps_place)
    from keeps_boundD[OF this b] Some show ?thesis by simp
  qed
qed

lemma gripper_screw_transfer_rest_keeps:
  "keeps_bound (gripper_screw_transfer_rest home_arg target screwdriver_loc screw_loc screw_time
     gopen gclose)"
  unfolding gripper_screw_transfer_rest_def
  by (intro keeps_steps_Cons keeps_steps_Nil keeps_prepare_gripper keeps_with_gripper_controller
        keeps_pick keeps_home keeps_bnd keeps_add_at keeps_approach_screw keeps_approach_target
        keeps_emit keeps_call keeps_place_hex_key)

lemma keeps_rotate:
  "keeps_bound (\<lambda>u. if robot u then call (MoveJ rotate_j 0.6 0.6) u
                     else raise (NameError ''robot'') u)"
proof (rule keeps_boundI)
  fix u :: ur
  assume b: "gripper_controller u \<noteq> None"
  from keeps_boundD[OF keeps_call b, of "MoveJ rotate_j 0.6 0.6"] b
  show "gripper_controller (snd (if robot u then call (MoveJ rotate_j 0.6 0.6) u
                     else raise (NameError ''robot'') u)) \<noteq> None"
    by (simp add: raise_def)
qed

lemma pick_and_flip_object_rest_keeps:
  "keeps_bound (pick_and_flip_object_rest home_arg target axis gopen gclose)"
  unfolding pick_and_flip_object_rest_def
  by (intro keeps_steps_Cons keeps_steps_Nil keeps_prepare_gripper keeps_with_gripper_controller
        keeps_pick keeps_place keeps_home keeps_bnd keeps_sq keeps_call_val keeps_add_at
        keeps_rotate keeps_index keeps_setitem)

lemma construct_gripper_binds:
  assumes "construct_gripper u = (Inr (), uc)"
  shows "gripper_controller uc \<noteq> None"
  using assms by (auto simp: construct_gripper_def bnd_def split: prod.splits sum.splits)

lemma rest_raised_bound:
  assumes "keeps_bound rest" and "construct_gripper u1 = (Inr (), uc)" and "rest uc = (Inl err, u2)"
  shows "sq construct_gripper rest u1 = (Inl err, u2) \<and> (\<exists>self. gripper_controller u2 = Some self)"
proof -
  from keeps_boundD[OF assms(1) construct_gripper_binds[OF assms(2)]] assms(3)
  have "gripper_controller u2 \<noteq> None" by simp
  moreover have "sq construct_gripper rest u1 = (Inl err, u2)"
    using assms(2,3) by (simp add: sq_def bnd_def)
  ultimately show ?thesis by auto
qed

subsection \<open>What follows an exception in a \<open>try\<close> block\<close>

lemma disconnect_gripper_returns: "\<exists>w'. disconnect_gripper self w = (Inr (), w')"
  by (auto simp: disconnect_gripper_def try_except_else_def gripper_call_def prog_defs
      split: option.splits)

lemma print_exception_eq: "print_exception err u = (Inr (), printing err u)"
  by (simp add: print_exception_def emit_def printing_def)

lemma gripper_controller_printing [simp]: "gripper_controller (printing err u) = gripper_controller u"
  by (simp add: printing_def)

lemma unit_result:
  "(case p of (Inl err, s) \<Rightarrow> (Inl err, s) | (Inr (v :: unit), s) \<Rightarrow> (Inr (), s)) = p"
  by (auto split: prod.splits sum.splits)

lemma home_unbound:
  "home h (unbound u) = (case home h u of (r, u') \<Rightarrow> (r, unbound u'))"
  by (simp add: home_def unbound_def prog_defs split: option.splits)

lemma home_in_frame:
  assumes "home h u = (Inr (), u1)"
  shows "local_frame (sq (home h) body) u = body (unbound u1)"
  using assms by (simp add: local_frame_def sq_def bnd_def home_unbound)

lemma finally_disconnect_home:
  assumes "body u1 = (Inl err, u2)" and "gripper_controller u2 = Some self"
  shows "\<exists>u3. disconnect_gripper self (printing err u2) = (Inr (), u3) \<and>
           try_finally (try_except body print_exception)
             (steps [with_gripper_controller disconnect_gripper, home h]) u1 = home h u3"
proof -
  obtain u3 where d: "disconnect_gripper self (printing err u2) = (Inr (), u3)"
    using disconnect_gripper_returns by blast
  have "try_finally (try_except body print_exception)
             (steps [with_gripper_controller disconnect_gripper, home h]) u1 = home h u3"
    using assms d
    by (simp add: try_finally_def try_except_def print_exception_eq with_gripper_controller_def
          sq_def bnd_def ret_def unit_result)
  with d show ?thesis by blast
qed

lemma finally_disconnect:
  assumes "body u1 = (Inl err, u2)" and "gripper_controller u2 = Some self"
  shows "\<exists>u3. disconnect_gripper self (printing err u2) = (Inr (), u3) \<and>
           try_finally (try_except body print_exception)
             (with_gripper_controller disconnect_gripper) u1 = (Inr (), u3)"
proof -
  obtain u3 where d: "disconnect_gripper self (printing err u2) = (Inr (), u3)"
    using disconnect_gripper_returns by blast
  have "try_finally (try_except body print_exception)
             (with_gripper_controller disconnect_gripper) u1 = (Inr (), u3)"
    using assms d
    by (simp add: try_finally_def try_except_def print_exception_eq with_gripper_controller_def)
  with d show ?thesis by blast
qed

lemma except_only:
  assumes "body u1 = (Inl err, u2)"
  shows "try_except body print_exception u1 = (Inr (), printing err u2)"
  using assms by (simp add: try_except_def print_exception_eq)

text \<open>
  Claim C2, as the code has it.  Let the first homing move of a task method succeed and
  let a step inside its \<open>try\<close> block raise \<open>err\<close>, leaving state \<open>u2\<close>; in the three
  methods whose \<open>finally\<close> block uses the gripper controller, let that step come after
  the constructor has returned the controller.  The handler prints \<open>err\<close>, and the
  exception is not propagated.  What runs next differs:
  \<^item> \<open>gripper_transfer\<close> disconnects the gripper controller that was constructed and homes
    again, and its outcome is that of this last homing move;
  \<^item> \<open>gripper_screw_transfer\<close> and \<open>pick_and_flip_object\<close> disconnect that gripper
    controller and return, without homing;
  \<^item> \<open>remove_cap\<close> and \<open>place_cap\<close> return at once;
  \<^item> \<open>robotiq_screwdriver_transfer\<close> homes again, without disconnecting, and its outcome
    is that of this homing move;
  \<^item> \<open>pipette_transfer\<close> (which has no first homing move) returns at once.
\<close>

theorem task_methods_catch:
  assumes "home home_arg u = (Inr (), u1)"
  shows "(\<forall>err uc u2. \<not> falsy_list source \<and> \<not> falsy_list target
            \<and> construct_gripper (unbound u1) = (Inr (), uc)
            \<and> gripper_transfer_rest source target source_axis target_axis source_distance
                 target_distance gopen gclose uc = (Inl err, u2)
          \<longrightarrow> (\<exists>self u3. gripper_controller u2 = Some self
                \<and> disconnect_gripper self (printing err u2) = (Inr (), u3)
                \<and> gripper_transfer home_arg source target source_axis target_axis source_distance
                     target_distance gopen gclose u = home home_arg u3))
       \<and> (\<forall>err uc u2. construct_gripper (unbound u1) = (Inr (), uc)
            \<and> gripper_screw_transfer_rest home_arg target screwdriver_loc screw_loc
                 screw_time gopen gclose uc = (Inl err, u2)
          \<longrightarrow> (\<exists>self u3. gripper_controller u2 = Some self
                \<and> disconnect_gripper self (printing err u2) = (Inr (), u3)
                \<and> gripper_screw_transfer home_arg target screwdriver_loc screw_loc screw_time
                     gopen gclose u = (Inr (), u3)))
       \<and> (\<forall>err uc u2. construct_gripper (unbound u1) = (Inr (), uc)
            \<and> pick_and_flip_object_rest home_arg target axis gopen gclose uc = (Inl err, u2)
          \<longrightarrow> (\<exists>self u3. gripper_controller u2 = Some self
                \<and> disconnect_gripper self (printing err u2) = (Inr (), u3)
                \<and> pick_and_flip_object home_arg target axis target_distance gopen gclose u
                    = (Inr (), u3)))
       \<and> (\<forall>err u2. remove_cap_try home_arg source target gopen gclose (unbound u1) = (Inl err, u2)
          \<longrightarrow> remove_cap home_arg source target gopen gclose u = (Inr (), printing err u2))
       \<and> (\<forall>err u2. place_cap_try home_arg source target gopen gclose (unbound u1) = (Inl err, u2)
          \<longrightarrow> place_cap home_arg source target gopen gclose u = (Inr (), printing err u2))
       \<and> (\<forall>err u2. robotiq_screwdriver_transfer_try u1 = (Inl err, u2)
          \<longrightarrow> robotiq_screwdriver_transfer home_arg u = home home_arg (printing err u2))
       \<and> (\<forall>err u2. \<not> falsy_list tip_loc \<and> \<not> falsy_list source
            \<and> pipette_transfer_try home_arg u = (Inl err, u2)
          \<longrightarrow> pipette_transfer home_arg tip_loc source u = (Inr (), printing err u2))"
proof (intro conjI allI impI)
  fix err uc u2
  let ?rest = "gripper_transfer_rest source target source_axis target_axis source_distance
                 target_distance gopen gclose"
  assume a: "\<not> falsy_list source \<and> \<not> falsy_list target
            \<and> construct_gripper (unbound u1) = (Inr (), uc) \<and> ?rest uc = (Inl err, u2)"
  from rest_raised_bound[OF gripper_transfer_rest_keeps, of "unbound u1" uc _ _ _ _ _ _ _ _ err u2] a
  obtain self where t: "sq construct_gripper ?rest (unbound u1) = (Inl err, u2)"
    and g: "gripper_controller u2 = Some self" by blast
  from finally_disconnect_home[of "sq construct_gripper ?rest" "unbound u1" err u2 self home_arg, OF t g]
  obtain u3 where
      d: "disconnect_gripper self (printing err u2) = (Inr (), u3)"
    and f: "try_finally (try_except (sq construct_gripper ?rest) print_exception)
             (steps [with_gripper_controller disconnect_gripper, home home_arg]) (unbound u1)
            = home home_arg u3" by blast
  have "gripper_transfer home_arg source target source_axis target_axis source_distance
          target_distance gopen gclose u = home home_arg u3"
    using a f
    by (simp add: gripper_transfer_def gripper_transfer_try_def home_in_frame[OF assms]
          del: steps.simps)
  with g d show "\<exists>self u3. gripper_controller u2 = Some self
                \<and> disconnect_gripper self (printing err u2) = (Inr (), u3)
                \<and> gripper_transfer home_arg source target source_axis target_axis source_distance
                     target_distance gopen gclose u = home home_arg u3" by blast
next
  fix err uc u2
  let ?rest = "gripper_screw_transfer_rest home_arg target screwdriver_loc screw_loc
                 screw_time gopen gclose"
  assume a: "construct_gripper (unbound u1) = (Inr (), uc) \<and> ?rest uc = (Inl err, u2)"
  from rest_raised_bound[OF gripper_screw_transfer_rest_keeps, of "unbound u1" uc _ _ _ _ _ _ _ err u2] a
  obtain self where t: "sq construct_gripper ?rest (unbound u1) = (Inl err, u2)"
    and g: "gripper_controller u2 = Some self" by blast
  from finally_disconnect[of "sq construct_gripper ?rest" "unbound u1" err u2 self, OF t g]
  obtain u3 where
      d: "disconnect_gripper self (printing err u2) = (Inr (), u3)"
    and f: "try_finally (try_except (sq construct_gripper ?rest) print_exception)
             (with_gripper_controller disconnect_gripper) (unbound u1) = (Inr (), u3)" by blast
  have "gripper_screw_transfer home_arg target screwdriver_loc screw_loc screw_time
                     gopen gclose u = (Inr (), u3)"
    using f
    by (simp add: gripper_screw_transfer_def gripper_screw_transfer_try_def home_in_frame[OF assms])
  with g d show "\<exists>self u3. gripper_controller u2 = Some self
                \<and> disconnect_gripper self (printing err u2) = (Inr (), u3)
                \<and> gripper_screw_transfer home_arg target screwdriver_loc screw_loc screw_time
                     gopen gclose u = (Inr (), u3)" by blast
next
  fix err uc u2
  let ?rest = "pick_and_flip_object_rest home_arg target axis gopen gclose"
  assume a: "construct_gripper (unbound u1) = (Inr (), uc) \<and> ?rest uc = (Inl err, u2)"
  from rest_raised_bound[OF pick_and_flip_object_rest_keeps, of "unbound u1" uc _ _ _ _ _ err u2] a
  obtain self where t: "sq construct_gripper ?rest (unbound u1) = (Inl err, u2)"
    and g: "gripper_controller u2 = Some self" by blast
  from finally_disconnect[of "sq construct_gripper ?rest" "unbound u1" err u2 self, OF t g]
  obtain u3 where
      d: "disconnect_gripper self (printing err u2) = (Inr (), u3)"
    and f: "try_finally (try_except (sq construct_gripper ?rest) print_exception)
             (with_gripper_controller disconnect_gripper) (unbound u1) = (Inr (), u3)" by blast
  have "pick_and_flip_object home_arg target axis target_distance gopen gclose u = (Inr (), u3)"
    using f
    by (simp add: pick_and_flip_object_def pick_and_flip_object_try_def home_in_frame[OF assms])
  with g d show "\<exists>self u3. gripper_controller u2 = Some self
                \<and> disconnect_gripper self (printing err u2) = (Inr (), u3)
                \<and> pick_and_flip_object home_arg target axis target_distance gopen gclose u
                    = (Inr (), u3)" by blast
next
  fix err u2
  assume "remove_cap_try home_arg source target gopen gclose (unbound u1) = (Inl err, u2)"
  then show "remove_cap home_arg source target gopen gclose u = (Inr (), printing err u2)"
    by (simp add: remove_cap_def except_only home_in_frame[OF assms])
next
  fix err u2
  assume "place_cap_try home_arg source target gopen gclose (unbound u1) = (Inl err, u2)"
  then show "place_cap home_arg source target gopen gclose u = (Inr (), printing err u2)"
    by (simp add: place_cap_def except_only home_in_frame[OF assms])
next
  fix err u2
  assume "robotiq_screwdriver_transfer_try u1 = (Inl err, u2)"
  then show "robotiq_screwdriver_transfer home_arg u = home home_arg (printing err u2)"
    using assms
    by (simp add: robotiq_screwdriver_transfer_def sq_def bnd_def except_only ret_def unit_result)
next
  fix err u2
  assume "\<not> falsy_list tip_loc \<and> \<not> falsy_list source
            \<and> pipette_transfer_try home_arg u = (Inl err, u2)"
  then show "pipette_transfer home_arg tip_loc source u = (Inr (), printing err u2)"
    by (simp add: pipette_transfer_def try_finally_def except_only ret_def)
qed

lemma raised_in:
  assumes "fst (body (homed u)) = Inl err"
  shows "body (homed u) = (Inl err, after_try body u)"
  using assms by (simp add: after_try_def prod_eq_iff)

lemma raised_in_rest:
  assumes "fst (body (constructed u)) = Inl err"
  shows "body (constructed u) = (Inl err, after_rest body u)"
  using assms by (simp add: after_rest_def prod_eq_iff)

lemma homed_failing_at: "0 < k \<Longrightarrow> home None (failing_at k) = (Inr (), homed (failing_at k))"
  by (simp add: facade_eval world_defs)

lemma unbound_homed_failing_at: "unbound (homed (failing_at k)) = homed (failing_at k)"
  by (simp add: facade_eval world_defs)

lemma constructed_failing_at_1:
  "construct_gripper (homed (failing_at 1)) = (Inr (), constructed (failing_at 1))"
  by (simp add: constructed_def facade_eval world_defs prod_eq_iff)

lemma deck_truthy: "\<not> falsy_list (Some deck)"
  by (simp add: falsy_list_def deck_def)

theorem task_methods_catch_witness:
  "home None (failing_at 1) = (Inr (), homed (failing_at 1))
   \<and> construct_gripper (unbound (homed (failing_at 1))) = (Inr (), constructed (failing_at 1))
   \<and> gripper_transfer_rest (Some deck) (Some deck) (Some ''z'') (Some ''y'') None None (Some 190) (Some 240)
        (constructed (failing_at 1))
       = (Inl (TypeError ''got an unexpected keyword argument home''),
          after_rest (gripper_transfer_rest (Some deck) (Some deck) (Some ''z'') (Some ''y'') None None
                       (Some 190) (Some 240)) (failing_at 1))
   \<and> (\<exists>u3. gripper_transfer None (Some deck) (Some deck) (Some ''z'') (Some ''y'') None None
               (Some 190) (Some 240) (failing_at 1) = home None u3)
   \<and> gripper_screw_transfer_rest None (Some deck) (Some deck) (Some deck) 10 (Some 190) (Some 240)
        (constructed (failing_at 1))
       = (Inl (NameError ''hex_key''),
          after_rest (gripper_screw_transfer_rest None (Some deck) (Some deck) (Some deck) 10
                       (Some 190) (Some 240)) (failing_at 1))
   \<and> fst (gripper_screw_transfer None (Some deck) (Some deck) (Some deck) 10 (Some 190) (Some 240)
            (failing_at 1)) = Inr ()
   \<and> pick_and_flip_object_rest None (Some deck) (Some ''y'') (Some 190) (Some 240)
        (constructed (failing_at 1))
       = (Inl (NameError ''robot''),
          after_rest (pick_and_flip_object_rest None (Some deck) (Some ''y'') (Some 190) (Some 240))
            (failing_at 1))
   \<and> fst (pick_and_flip_object None (Some deck) (Some ''y'') None (Some 190) (Some 240) (failing_at 1))
       = Inr ()
   \<and> remove_cap None (Some deck) (Some deck) (Some 190) (Some 240) (failing_at 1)
       = (Inr (), printing (AttributeError ''FingerGripperController object has no attribute open_gripper'')
                   (after_try (remove_cap_try None (Some deck) (Some deck) (Some 190) (Some 240))
                      (failing_at 1)))
   \<and> place_cap None (Some deck) (Some deck) (Some 190) (Some 240) (failing_at 1)
       = (Inr (), printing (AttributeError ''FingerGripperController object has no attribute open_gripper'')
                   (after_try (place_cap_try None (Some deck) (Some deck) (Some 190) (Some 240))
                      (failing_at 1)))
   \<and> robotiq_screwdriver_transfer None (failing_at 1)
       = home None (printing (OSError ''timed out'')
                     (after_try robotiq_screwdriver_transfer_try (failing_at 1)))
   \<and> pipette_transfer None (Some deck) (Some deck) (failing_at 1)
       = (Inr (), printing (OSError ''timed out'') (snd (pipette_transfer_try None (failing_at 1))))"
proof -
  let ?E = "failing_at 1"
  have h: "home None ?E = (Inr (), homed ?E)" by (simp add: homed_failing_at)
  have c: "construct_gripper (unbound (homed ?E)) = (Inr (), constructed ?E)"
    by (simp only: unbound_homed_failing_at constructed_failing_at_1)
  note T = task_methods_catch[OF h, where source = "Some deck" and target = "Some deck"
      and source_axis = "Some ''z''" and target_axis = "Some ''y''" and source_distance = None
      and target_distance = None and gopen = "Some 190" and gclose = "Some 240"
      and screwdriver_loc = "Some deck" and screw_loc = "Some deck" and screw_time = 10
      and axis = "Some ''y''" and tip_loc = "Some deck"]
  let ?b1 = "gripper_transfer_rest (Some deck) (Some deck) (Some ''z'') (Some ''y'') None None (Some 190) (Some 240)"
  have t1: "?b1 (constructed ?E) = (Inl (TypeError ''got an unexpected keyword argument home''), after_rest ?b1 ?E)"
    by (rule raised_in_rest)
       (simp add: gripper_transfer_rest_def constructed_def facade_eval world_defs)
  from T[THEN conjunct1, rule_format, OF conjI[OF deck_truthy conjI[OF deck_truthy conjI[OF c t1]]]]
  have c1: "\<exists>u3. gripper_transfer None (Some deck) (Some deck) (Some ''z'') (Some ''y'') None None
               (Some 190) (Some 240) ?E = home None u3" by blast
  let ?b2 = "gripper_screw_transfer_rest None (Some deck) (Some deck) (Some deck) 10 (Some 190) (Some 240)"
  have t2: "?b2 (constructed ?E) = (Inl (NameError ''hex_key''), after_rest ?b2 ?E)"
    by (rule raised_in_rest)
       (simp add: gripper_screw_transfer_rest_def constructed_def facade_eval world_defs)
  from T[THEN conjunct2, THEN conjunct1, rule_format, OF conjI[OF c t2]]
  have c2: "fst (gripper_screw_transfer None (Some deck) (Some deck) (Some deck) 10 (Some 190) (Some 240) ?E) = Inr ()"
    by auto
  let ?b3 = "pick_and_flip_object_rest None (Some deck) (Some ''y'') (Some 190) (Some 240)"
  have t3: "?b3 (constructed ?E) = (Inl (NameError ''robot''), after_rest ?b3 ?E)"
    by (rule raised_in_rest)
       (simp add: pick_and_flip_object_rest_def constructed_def facade_eval world_defs radians_180_def)
  from T[THEN conjunct2, THEN conjunct2, THEN conjunct1, rule_format, OF conjI[OF c t3]]
  have c3: "fst (pick_and_flip_object None (Some deck) (Some ''y'') None (Some 190) (Some 240) ?E) = Inr ()"
    by auto
  let ?b4 = "remove_cap_try None (Some deck) (Some deck) (Some 190) (Some 240)"
  have t4: "?b4 (unbound (homed ?E)) = (Inl (AttributeError ''FingerGripperController object has no attribute open_gripper''), after_try ?b4 ?E)"
    unfolding unbound_homed_failing_at
    by (rule raised_in) (simp add: remove_cap_try_def facade_eval world_defs)
  note c4 = T[THEN conjunct2, THEN conjunct2, THEN conjunct2, THEN conjunct1, rule_format, OF t4]
  let ?b5 = "place_cap_try None (Some deck) (Some deck) (Some 190) (Some 240)"
  have t5: "?b5 (unbound (homed ?E)) = (Inl (AttributeError ''FingerGripperController object has no attribute open_gripper''), after_try ?b5 ?E)"
    unfolding unbound_homed_failing_at
    by (rule raised_in) (simp add: place_cap_try_def facade_eval world_defs)
  note c5 = T[THEN conjunct2, THEN conjunct2, THEN conjunct2, THEN conjunct2, THEN conjunct1,
      rule_format, OF t5]
  have t6: "robotiq_screwdriver_transfer_try (homed ?E) = (Inl (OSError ''timed out''), after_try robotiq_screwdriver_transfer_try ?E)"
    by (rule raised_in) (simp add: robotiq_screwdriver_transfer_try_def facade_eval world_defs)
  note c6 = T[THEN conjunct2, THEN conjunct2, THEN conjunct2, THEN conjunct2, THEN conjunct2,
      THEN conjunct1, rule_format, OF t6]
  have t7: "pipette_transfer_try None ?E = (Inl (OSError ''timed out''), snd (pipette_transfer_try None ?E))"
    by (simp add: pipette_transfer_try_def facade_eval world_defs prod_eq_iff)
  note c7 = T[THEN conjunct2, THEN conjunct2, THEN conjunct2, THEN conjunct2, THEN conjunct2,
      THEN conjunct2, rule_format, OF conjI[OF deck_truthy conjI[OF deck_truthy t7]]]
  from h c t1 c1 t2 c2 t3 c3 c4 c5 c6 c7 show ?thesis by blast
qed

text \<open>
  The claim as stated fails for \<open>remove_cap\<close>: its \<open>try\<close> block raises (the controller
  has no method \<open>open_gripper\<close>), the exception is printed, and the method returns with
  nothing after the print: the gripper is not disconnected and the robot is not homed
  again.
\<close>

theorem remove_cap_no_cleanup:
  "fst (remove_cap None (Some deck) (Some deck) (Some 120) (Some 200) quiet_ur) = Inr () \<and>
   trace (snd (remove_cap None (Some deck) (Some deck) (Some 120) (Some 200) quiet_ur)) =
     [Print ''Homing the robot...'', MoveJ default_home 2 2, Print ''Robot homed'',
      RobotiqGripperNew, Print ''Connecting to gripper...'', GripperConnect ''192.168.1.102'' 63352,
      GripperIsActive, Print ''Gripper already active'',
      RobotiqGripperNew, Print ''Connecting to gripper...'', GripperConnect ''192.168.1.102'' 63352,
      GripperIsActive, Print ''Gripper already active'',
      PrintExn (AttributeError ''FingerGripperController object has no attribute open_gripper'')]"
  by (simp add: remove_cap_def remove_cap_try_def facade_eval world_defs)

text \<open>
  The local name of one call is not seen by the next: a task method behaves the same
  whatever an earlier call had bound to \<open>gripper_controller\<close>.
\<close>

lemma local_frame_fresh: "local_frame body (u\<lparr>gripper_controller := g\<rparr>) = local_frame body u"
  by (simp add: local_frame_def unbound_def)

text \<open>
  So a controller that an earlier call had constructed is not there for the \<open>finally\<close>
  block of a call whose own constructor raises (here on the fourth library call, the
  query whether the gripper is active): the name is unbound in that call.
\<close>

lemma earlier_controller_not_seen:
  "fst (gripper_transfer None (Some deck) (Some deck) (Some ''z'') (Some ''y'') None None
          (Some 190) (Some 240) ((failing_at 3)\<lparr>gripper_controller := Some fitted_gripper\<rparr>))
     = Inl (UnboundLocalError ''gripper_controller'')"
  by (simp add: gripper_transfer_def gripper_transfer_try_def facade_eval world_defs)

section \<open>Properties of the polling loop\<close>

lemma polled_0: "polled 0 u = u"
  by (simp add: polled_def)

lemma replicate_snoc: "concat (replicate j xs) @ xs = concat (replicate (Suc j) xs)"
  by (induction j) auto

lemma poll_step:
  assumes "raises_env u (calls u + j) = None"
  shows "\<exists>s. get_movement_state (polled j u) = (Inr (if poll_ready u j then ''READY'' else ''BUSY''), s)
           \<and> snd (emit (Sleep 3) s) = polled (Suc j) u"
proof -
  have "concat (replicate j [GetJ, Sleep 3]) @ [GetJ, Sleep 3] = concat (replicate (Suc j) [GetJ, Sleep 3])"
    by (rule replicate_snoc)
  then show ?thesis using assms
    by (auto simp: get_movement_state_def polled_def poll_ready_def call_val_def bnd_def emit_def Let_def)
qed

lemma poll_raises:
  assumes "raises_env u (calls u + j) = Some err"
  shows "\<exists>s. get_movement_state (polled j u) = (Inl err, s)"
  using assms
  by (auto simp: get_movement_state_def polled_def call_val_def bnd_def Let_def)

lemma streak_ge:
  "c \<le> streak u j \<longleftrightarrow> (c \<le> j \<and> (\<forall>k. j - c \<le> k \<and> k < j \<longrightarrow> poll_ready u k))"
proof (induction j arbitrary: c)
  case 0
  then show ?case by simp
next
  case (Suc j)
  show ?case
  proof (cases "poll_ready u j")
    case True
    show ?thesis
    proof (cases c)
      case 0
      then show ?thesis by auto
    next
      case (Suc c')
      have "(\<forall>k. j - c' \<le> k \<and> k < Suc j \<longrightarrow> poll_ready u k) \<longleftrightarrow> (\<forall>k. j - c' \<le> k \<and> k < j \<longrightarrow> poll_ready u k)"
        using True less_Suc_eq by auto
      then show ?thesis using True Suc Suc.IH[of c'] by simp
    qed
  next
    case False
    then show ?thesis by (cases c) (auto intro!: exI[of _ j])
  qed
qed

lemma six_ready_streak: "six_ready_at u n \<longleftrightarrow> 6 \<le> streak u (Suc n)"
proof -
  have "(\<forall>k. n - 5 \<le> k \<and> k \<le> n \<longrightarrow> poll_ready u k) \<longleftrightarrow> (\<forall>k. Suc n - 6 \<le> k \<and> k < Suc n \<longrightarrow> poll_ready u k)"
    by (simp add: less_Suc_eq_le)
  then show ?thesis unfolding six_ready_at_def streak_ge[of 6 u "Suc n"] by auto
qed

lemma poll_loop_ready: "poll_loop ''READY'' c u = Some (Inr (), u)"
  by (subst poll_loop.simps) simp

lemma poll_loop_reaches:
  assumes calm: "\<forall>k\<le>n. raises_env u (calls u + k) = None"
    and hit: "6 \<le> streak u (Suc n)"
    and first: "\<forall>m<n. streak u (Suc m) < 6"
  shows "j + d = n \<Longrightarrow> poll_loop ''BUSY'' (int (streak u j)) (polled j u) = Some (Inr (), polled (Suc n) u)"
proof (induction d arbitrary: j)
  case 0
  then have j: "j = n" by simp
  from calm j obtain s where s: "get_movement_state (polled j u) = (Inr (if poll_ready u j then ''READY'' else ''BUSY''), s)"
      and s': "snd (emit (Sleep 3) s) = polled (Suc j) u"
    using poll_step[of u j] by auto
  from hit j have r: "poll_ready u j" and c: "6 \<le> int (streak u j) + 1"
    by (auto split: if_splits)
  show ?case
    by (subst poll_loop.simps) (simp add: s r c s' poll_loop_ready j[symmetric])
next
  case (Suc d)
  from Suc.prems have j: "j < n" by simp
  with calm obtain s where s: "get_movement_state (polled j u) = (Inr (if poll_ready u j then ''READY'' else ''BUSY''), s)"
      and s': "snd (emit (Sleep 3) s) = polled (Suc j) u"
    using poll_step[of u j] by auto
  from first j have lt: "streak u (Suc j) < 6" by simp
  have IH: "poll_loop ''BUSY'' (int (streak u (Suc j))) (polled (Suc j) u) = Some (Inr (), polled (Suc n) u)"
    using Suc.IH[of "Suc j"] Suc.prems by simp
  show ?case
  proof (cases "poll_ready u j")
    case True
    with lt have c: "\<not> 6 \<le> int (streak u j) + 1" by simp
    have e: "int (streak u j) + 1 = int (streak u (Suc j))" using True by simp
    have "poll_loop ''BUSY'' (int (streak u j)) (polled j u)
            = poll_loop ''BUSY'' (int (streak u j) + 1) (polled (Suc j) u)"
      by (subst poll_loop.simps) (simp add: s True c s')
    then show ?thesis using e IH by simp
  next
    case False
    then have e: "0 = int (streak u (Suc j))" by simp
    have "poll_loop ''BUSY'' (int (streak u j)) (polled j u)
            = poll_loop ''BUSY'' 0 (polled (Suc j) u)"
      by (subst poll_loop.simps) (simp add: s False s')
    then show ?thesis using e IH by simp
  qed
qed


lemma poll_loop_sound:
  assumes "poll_loop status c s = Some y"
  shows "(status \<noteq> ''BUSY'' \<longrightarrow> y = (Inr (), s)) \<and> (\<forall>j. on_track u j status c s \<longrightarrow> outcome_ok u y)"
proof (rule poll_loop.raw_induct[where P = "\<lambda>status c s y.
          (status \<noteq> ''BUSY'' \<longrightarrow> y = (Inr (), s)) \<and> (\<forall>j. on_track u j status c s \<longrightarrow> outcome_ok u y)",
        OF _ assms])
  fix f status c s y
  assume IH: "\<And>status c s y. f status c s = Some y \<Longrightarrow>
          (status \<noteq> ''BUSY'' \<longrightarrow> y = (Inr (), s)) \<and> (\<forall>j. on_track u j status c s \<longrightarrow> outcome_ok u y)"
    and step: "(if status = ''BUSY'' then
        (case get_movement_state s of
           (Inl err, u1) \<Rightarrow> Some (Inl err, u1)
         | (Inr movement_state, u1) \<Rightarrow>
             if movement_state = ''READY'' then
               (if c + 1 \<ge> 6
                then f ''READY'' (c + 1) (snd (emit (Sleep 3) u1))
                else f status (c + 1) (snd (emit (Sleep 3) u1)))
             else f status 0 (snd (emit (Sleep 3) u1)))
      else Some (Inr (), s)) = Some y"
  show "(status \<noteq> ''BUSY'' \<longrightarrow> y = (Inr (), s)) \<and> (\<forall>j. on_track u j status c s \<longrightarrow> outcome_ok u y)"
  proof (intro conjI allI impI)
    assume "status \<noteq> ''BUSY''"
    with step show "y = (Inr (), s)" by simp
  next
    fix j
    assume t: "on_track u j status c s"
    then have busy: "status = ''BUSY''" and c: "c = int (streak u j)" and s: "s = polled j u"
      and low: "\<forall>m<j. streak u (Suc m) < 6" and calm: "\<forall>k<j. raises_env u (calls u + k) = None"
      by (auto simp: on_track_def)
    show "outcome_ok u y"
    proof (cases "raises_env u (calls u + j)")
      case (Some err)
      then obtain s1 where "get_movement_state (polled j u) = (Inl err, s1)"
        using poll_raises by blast
      with step busy s have "fst y = Inl err" by auto
      with Some show ?thesis unfolding outcome_ok_def by blast
    next
      case None
      then obtain s1 where g: "get_movement_state (polled j u) = (Inr (if poll_ready u j then ''READY'' else ''BUSY''), s1)"
        and s1: "snd (emit (Sleep 3) s1) = polled (Suc j) u"
        using poll_step[of u j] by auto
      have calm': "\<forall>k<Suc j. raises_env u (calls u + k) = None"
        using calm None less_Suc_eq by auto
      show ?thesis
      proof (cases "poll_ready u j")
        case False
        with step busy s g s1 have "f ''BUSY'' 0 (polled (Suc j) u) = Some y" by simp
        moreover have "on_track u (Suc j) ''BUSY'' 0 (polled (Suc j) u)"
          using False low calm' by (auto simp: on_track_def less_Suc_eq)
        ultimately show ?thesis using IH by blast
      next
        case True
        then have e: "c + 1 = int (streak u (Suc j))" using c by simp
        show ?thesis
        proof (cases "6 \<le> c + 1")
          case False
          with step busy s g s1 True have "f ''BUSY'' (c + 1) (polled (Suc j) u) = Some y" by simp
          moreover have "on_track u (Suc j) ''BUSY'' (c + 1) (polled (Suc j) u)"
            using False e low calm' by (auto simp: on_track_def less_Suc_eq simp del: streak.simps)
          ultimately show ?thesis using IH by blast
        next
          case six: True
          with step busy s g s1 True have "f ''READY'' (c + 1) (polled (Suc j) u) = Some y" by simp
          with IH have "y = (Inr (), polled (Suc j) u)" by blast
          moreover have "stops_at u j"
            using six e low calm' by (auto simp: stops_at_def less_Suc_eq_le simp del: streak.simps)
          ultimately show ?thesis unfolding outcome_ok_def by auto
        qed
      qed
    qed
  qed
qed

lemma finishes_stops: "finishes_at u n \<longleftrightarrow> stops_at u n"
  by (simp add: finishes_at_def stops_at_def six_ready_streak not_le)

lemma on_track_start: "on_track u 0 ''BUSY'' 0 u"
  by (simp add: on_track_def polled_0)

lemma trace_polled: "trace (polled j u) = trace u @ concat (replicate j [GetJ, Sleep 3])"
  by (simp add: polled_def)

text \<open>
  Claim C4.  Started with \<open>program_status = "BUSY"\<close> and a count of zero, the loop of
  \<open>run_urp_program\<close> ends normally exactly when some poll \<open>n\<close> is the first to complete
  six consecutive polls that found the joint angles unchanged (no poll up to it having
  raised); it then has made \<open>n + 1\<close> polls, each followed by a sleep of three seconds,
  and nothing else.  A poll that finds a change sets the count back to zero, so fewer
  than six in a row never end the loop: when no six consecutive polls are ever unchanged
  and no poll raises, the loop does not end.
\<close>

theorem poll_loop_six_consecutive:
  "(poll_loop ''BUSY'' 0 u = Some (Inr (), u')
      \<longleftrightarrow> (\<exists>n. finishes_at u n \<and> u' = polled (Suc n) u))
   \<and> ((\<forall>n. \<not> six_ready_at u n) \<and> (\<forall>k. raises_env u (calls u + k) = None)
        \<longrightarrow> poll_loop ''BUSY'' 0 u = None)"
proof (intro conjI iffI impI)
  assume "poll_loop ''BUSY'' 0 u = Some (Inr (), u')"
  from poll_loop_sound[OF this, of u] on_track_start[of u]
  have "outcome_ok u (Inr (), u')" by blast
  then show "\<exists>n. finishes_at u n \<and> u' = polled (Suc n) u"
    by (auto simp: outcome_ok_def finishes_stops)
next
  assume "\<exists>n. finishes_at u n \<and> u' = polled (Suc n) u"
  then obtain n where n: "stops_at u n" and u': "u' = polled (Suc n) u"
    by (auto simp: finishes_stops)
  from n have "poll_loop ''BUSY'' (int (streak u 0)) (polled 0 u) = Some (Inr (), polled (Suc n) u)"
    using poll_loop_reaches[of n u 0 n] by (simp add: stops_at_def)
  with u' show "poll_loop ''BUSY'' 0 u = Some (Inr (), u')" by (simp add: polled_0)
next
  assume a: "(\<forall>n. \<not> six_ready_at u n) \<and> (\<forall>k. raises_env u (calls u + k) = None)"
  show "poll_loop ''BUSY'' 0 u = None"
  proof (cases "poll_loop ''BUSY'' 0 u")
    case None
    then show ?thesis .
  next
    case (Some y)
    from poll_loop_sound[OF this, of u] on_track_start[of u]
    have "outcome_ok u y" by blast
    with a show ?thesis
      by (auto simp: outcome_ok_def stops_at_def six_ready_streak)
  qed
qed

lemma settling_ready: "poll_ready settling_ur k \<longleftrightarrow> 2 \<le> k"
  by (auto simp: poll_ready_def settling_ur_def quiet_ur_def two_decimals_def)

lemma settling_finishes: "finishes_at settling_ur 7"
proof -
  have "\<not> six_ready_at settling_ur m" if "m < 7" for m
  proof
    assume a: "six_ready_at settling_ur m"
    then have "5 \<le> m" by (simp add: six_ready_at_def)
    with that have "m - 5 \<le> 1 \<and> 1 \<le> m" by arith
    with a have "poll_ready settling_ur 1" unfolding six_ready_at_def by blast
    then show False by (simp add: settling_ready)
  qed
  moreover have "six_ready_at settling_ur 7"
    by (auto simp: six_ready_at_def settling_ready)
  moreover have "\<forall>k\<le>7. raises_env settling_ur (calls settling_ur + k) = None"
    by (simp add: settling_ur_def quiet_ur_def)
  ultimately show ?thesis by (simp add: finishes_at_def)
qed

lemma oscillating_ready: "\<not> poll_ready oscillating_ur k"
  by (auto simp: poll_ready_def oscillating_ur_def quiet_ur_def two_decimals_def)

lemma oscillating_never: "\<not> six_ready_at oscillating_ur n"
  by (auto simp: six_ready_at_def oscillating_ready)

theorem poll_loop_six_consecutive_witness:
  "finishes_at settling_ur 7
   \<and> poll_loop ''BUSY'' 0 settling_ur = Some (Inr (), polled 8 settling_ur)
   \<and> trace (polled 8 settling_ur) =
       [GetJ, Sleep 3, GetJ, Sleep 3, GetJ, Sleep 3, GetJ, Sleep 3,
        GetJ, Sleep 3, GetJ, Sleep 3, GetJ, Sleep 3, GetJ, Sleep 3]
   \<and> (\<forall>n. \<not> six_ready_at oscillating_ur n)
   \<and> (\<forall>k. raises_env oscillating_ur (calls oscillating_ur + k) = None)
   \<and> poll_loop ''BUSY'' 0 oscillating_ur = None"
proof -
  have calm: "\<forall>k. raises_env oscillating_ur (calls oscillating_ur + k) = None"
    by (simp add: oscillating_ur_def quiet_ur_def)
  have t: "trace (polled 8 settling_ur) =
       [GetJ, Sleep 3, GetJ, Sleep 3, GetJ, Sleep 3, GetJ, Sleep 3,
        GetJ, Sleep 3, GetJ, Sleep 3, GetJ, Sleep 3, GetJ, Sleep 3]"
    by (simp add: polled_def settling_ur_def quiet_ur_def numeral_eq_Suc)
  have e: "Suc 7 = 8" by simp
  from poll_loop_six_consecutive[of settling_ur "polled 8 settling_ur"] settling_finishes e
  have a: "poll_loop ''BUSY'' 0 settling_ur = Some (Inr (), polled 8 settling_ur)" by metis
  from poll_loop_six_consecutive[of oscillating_ur] oscillating_never calm
  have b: "poll_loop ''BUSY'' 0 oscillating_ur = None" by blast
  from settling_finishes a t oscillating_never calm b show ?thesis by blast
qed

end
